theory Spec2Isabelle
  imports Complex_Main "HOL-Library.Word"
begin

unbundle bit_operations_syntax

section \<open>Conventions of the embedding\<close>

text \<open>
  The repository is JavaScript: \<^verbatim>\<open>server/evaluation/metrics.js\<close> holds the classes
  \<^verbatim>\<open>EvaluationMetrics\<close>, \<^verbatim>\<open>VectorStore\<close> and \<^verbatim>\<open>RAGPipeline\<close>, and
  \<^verbatim>\<open>server/processors/documentProcessor.js\<close> holds \<^verbatim>\<open>DocumentProcessor\<close>.

  \<^item> A JavaScript string is a \<^typ>\<open>string\<close>: one \<^typ>\<open>char\<close> per code unit, so the
    model covers texts whose code units are below 256 (Latin-1).
  \<^item> A finite JavaScript number is a \<^typ>\<open>real\<close>: sums, products and quotients
    are exact, rounding to a double is not modelled. Every division of the source whose
    divisor can be zero is written with its guard; the one unguarded division
    (\<^verbatim>\<open>getPerformanceReport\<close>) returns a \<open>jsnum\<close>, which has the value NaN.
    \<^verbatim>\<open>cosineSimilarity\<close> is given twice: over \<^typ>\<open>real\<close>, as \<^verbatim>\<open>search\<close> uses it, and
    over \<open>jsnum\<close> with the overflow of doubles, where a sum of squares can become
    \<^verbatim>\<open>Infinity\<close>.
  \<^item> An object is a record; a field name that is also a constant of HOL or a field of
    another record carries a short prefix.
  \<^item> An \<^verbatim>\<open>async\<close> function whose promise can only resolve is modelled by the
    value it resolves to; \<^verbatim>\<open>search\<close>, \<^verbatim>\<open>searchWithQuery\<close> and \<^verbatim>\<open>query\<close> return
    \<open>error + value\<close>, \<open>Inl\<close> being a rejected promise.
\<close>

section \<open>String primitives\<close>

text \<open>White space as \<^verbatim>\<open>\s\<close> and \<^verbatim>\<open>String.prototype.trim\<close> see it, among the code units
  below 256: TAB, LF, VT, FF, CR, SPACE and NBSP.\<close>

definition is_ws :: "char \<Rightarrow> bool" where
  "is_ws c = (of_char c \<in> {9, 10, 11, 12, 13, 32, 160 :: nat})"

text \<open>\<^verbatim>\<open>toLowerCase\<close> on one code unit below 256: A-Z and the Latin-1 capitals
  (0xC0-0xDE except the multiplication sign 0xD7) move up by 32.\<close>

definition toLowerChar :: "char \<Rightarrow> char" where
  "toLowerChar c = (let n = of_char c :: nat in
     if (65 \<le> n \<and> n \<le> 90) \<or> (192 \<le> n \<and> n \<le> 222 \<and> n \<noteq> 215)
     then char_of (n + 32) else c)"

definition toLowerCase :: "string \<Rightarrow> string" where
  "toLowerCase s = map toLowerChar s"

text \<open>\<^verbatim>\<open>s.split(/[...]+/)\<close> for a character class \<open>P\<close>: the pieces between maximal
  runs of characters of the class. A run at the start or the end leaves an empty piece
  there, and the empty string gives one empty piece. The flag says that the previous
  character was in the class.\<close>

fun split_runs_from :: "(char \<Rightarrow> bool) \<Rightarrow> bool \<Rightarrow> string \<Rightarrow> string \<Rightarrow> string list" where
  "split_runs_from P inrun cur [] = [cur]"
| "split_runs_from P inrun cur (c # cs) =
     (if P c then (if inrun then split_runs_from P True cur cs
                   else cur # split_runs_from P True [] cs)
      else split_runs_from P False (cur @ [c]) cs)"

text \<open>\<^verbatim>\<open>s.split(/\s+/)\<close>.\<close>

definition split_ws :: "string \<Rightarrow> string list" where
  "split_ws s = split_runs_from is_ws False [] s"

text \<open>\<^verbatim>\<open>s.split(/[.!?]+/)\<close>.\<close>

definition split_punct :: "string \<Rightarrow> string list" where
  "split_punct s = split_runs_from (\<lambda>c. c = CHR ''.'' \<or> c = CHR ''!'' \<or> c = CHR ''?'') False [] s"

text \<open>\<^verbatim>\<open>xs.join(sep)\<close>.\<close>

fun join :: "string \<Rightarrow> string list \<Rightarrow> string" where
  "join sep [] = []"
| "join sep [x] = x"
| "join sep (x # y # ys) = x @ sep @ join sep (y # ys)"

text \<open>A number printed in decimal, as a template literal prints a chunk id.\<close>

function show_nat :: "nat \<Rightarrow> string" where
  "show_nat n = (if n < 10 then [char_of (48 + n)]
                 else show_nat (n div 10) @ [char_of (48 + n mod 10)])"
  by pat_completeness auto
termination
  by (relation "measure (\<lambda>n. n)") auto

declare show_nat.simps [simp del]

text \<open>\<^verbatim>\<open>s.split(sep)\<close> for a separator of two characters (\<^verbatim>\<open>'\n\n'\<close> and \<^verbatim>\<open>'. '\<close>
  are the two the source uses): scanning from the left, without overlap.\<close>

fun split_from :: "char \<Rightarrow> char \<Rightarrow> string \<Rightarrow> string \<Rightarrow> string list" where
  "split_from a b cur [] = [cur]"
| "split_from a b cur [c] = [cur @ [c]]"
| "split_from a b cur (c # d # cs) =
     (if c = a \<and> d = b then cur # split_from a b [] cs
      else split_from a b (cur @ [c]) (d # cs))"

definition split2 :: "char \<Rightarrow> char \<Rightarrow> string \<Rightarrow> string list" where
  "split2 a b s = split_from a b [] s"

text \<open>\<^verbatim>\<open>s.trim()\<close>.\<close>

definition trim :: "string \<Rightarrow> string" where
  "trim s = rev (dropWhile is_ws (rev (dropWhile is_ws s)))"

text \<open>\<^verbatim>\<open>s.includes(t)\<close>: \<open>t\<close> occurs in \<open>s\<close> as a substring.\<close>

fun starts_with :: "string \<Rightarrow> string \<Rightarrow> bool" where
  "starts_with s [] = True"
| "starts_with [] (t # ts) = False"
| "starts_with (c # cs) (t # ts) = (c = t \<and> starts_with cs ts)"

fun includes_str :: "string \<Rightarrow> string \<Rightarrow> bool" where
  "includes_str [] t = (t = [])"
| "includes_str (c # cs) t = (starts_with (c # cs) t \<or> includes_str cs t)"

section \<open>Numbers that can be NaN\<close>

datatype jsnum = Num real | NaN | PosInfinity | NegInfinity

text \<open>\<^verbatim>\<open>x / n\<close> for a finite \<open>x\<close> and an array length \<open>n\<close> (so the zero divisor is
  \<^verbatim>\<open>+0\<close>): IEEE 754 gives NaN for 0/0 and a signed infinity for any other \<open>x\<close>.\<close>

definition js_div :: "real \<Rightarrow> nat \<Rightarrow> jsnum" where
  "js_div x n =
     (if n \<noteq> 0 then Num (x / real n)
      else if x = 0 then NaN
      else if 0 < x then PosInfinity else NegInfinity)"









section \<open>EvaluationMetrics\<close>

record answer =
  a_text :: string
  confidence :: real
  a_intent :: string
  contextUsed :: bool

text \<open>An element of \<^verbatim>\<open>response.sources\<close>; the metadata is copied around and never
  inspected, so its type is a parameter.\<close>

record 'm source =
  s_content :: string
  similarity :: real
  s_documentId :: string
  s_type :: string
  s_metadata :: 'm

record 'm response =
  r_answer :: answer
  sources :: "'m source list"
  relevanceScore :: real
  r_context :: string
  queryIntent :: string

text \<open>The object \<^verbatim>\<open>calculateMetrics\<close> builds, without its \<^verbatim>\<open>timestamp\<close> (the wall
  clock). It has no \<^verbatim>\<open>intent\<close> field.\<close>

record metrics =
  latency :: real
  m_relevanceScore :: real
  sourcesCount :: nat
  contextLength :: nat
  success :: bool
  faithfulness :: real
  answerRelevancy :: real
  contextRecall :: real
  contextPrecision :: real

record performanceMetrics =
  totalQueries :: nat
  avgLatency :: real
  avgRelevanceScore :: real
  successRate :: real

record evaluationMetrics =
  queryHistory :: "metrics list"
  performance :: performanceMetrics

definition constructor_EvaluationMetrics :: evaluationMetrics where
  "constructor_EvaluationMetrics =
     \<lparr>queryHistory = [],
      performance = \<lparr>totalQueries = 0, avgLatency = 0, avgRelevanceScore = 0, successRate = 0\<rparr>\<rparr>"

definition calculateFaithfulness :: "answer \<Rightarrow> string \<Rightarrow> real" where
  "calculateFaithfulness answer context =
     (if context = [] then 0
      else
        let answerWords = (if a_text answer \<noteq> [] then split_ws (toLowerCase (a_text answer)) else []);
            contextWords = split_ws (toLowerCase context);
            groundedWords = filter (\<lambda>word. word \<in> set contextWords \<and> length word > 3) answerWords
        in if length answerWords > 0
           then real (length groundedWords) / real (length answerWords) else 0)"

text \<open>\<^verbatim>\<open>answer.confidence || 0.5\<close>: a confidence of 0 is falsy and becomes 0.5.\<close>

definition calculateAnswerRelevancy :: "answer \<Rightarrow> 'm source list \<Rightarrow> real" where
  "calculateAnswerRelevancy answer srcs =
     (if srcs = [] then 0
      else
        let avgSourceSimilarity = foldl (\<lambda>sum s. sum + similarity s) 0 srcs / real (length srcs);
            answerConfidence = (if confidence answer = 0 then 0.5 else confidence answer)
        in (avgSourceSimilarity + answerConfidence) / 2)"

definition calculateContextRecall :: "'m source list \<Rightarrow> string \<Rightarrow> real" where
  "calculateContextRecall srcs context =
     (if srcs = [] then 0
      else
        let totalSources = length srcs;
            highQualitySources = length (filter (\<lambda>s. similarity s > 0.7) srcs)
        in if totalSources > 0 then real highQualitySources / real totalSources else 0)"

text \<open>The \<^verbatim>\<open>forEach\<close> of \<^verbatim>\<open>calculateContextPrecision\<close>: the index, the counter
  \<^verbatim>\<open>relevantFound\<close> and the sum \<^verbatim>\<open>cumulativePrecision\<close> are the loop state.\<close>

fun precision_loop :: "'m source list \<Rightarrow> nat \<Rightarrow> nat \<Rightarrow> real \<Rightarrow> real" where
  "precision_loop [] index relevantFound cumulativePrecision = cumulativePrecision"
| "precision_loop (s # ss) index relevantFound cumulativePrecision =
     (if similarity s > 0.5
      then precision_loop ss (index + 1) (relevantFound + 1)
             (cumulativePrecision + real (relevantFound + 1) / real (index + 1))
      else precision_loop ss (index + 1) relevantFound cumulativePrecision)"

definition calculateContextPrecision :: "'m source list \<Rightarrow> real" where
  "calculateContextPrecision srcs =
     (if srcs = [] then 0
      else
        let cumulativePrecision = precision_loop srcs 0 0 0;
            relevantSources = length (filter (\<lambda>s. similarity s > 0.5) srcs)
        in if relevantSources > 0 then cumulativePrecision / real relevantSources else 0)"

text \<open>\<^verbatim>\<open>xs.slice(-n)\<close>: the last \<open>n\<close> elements, all of them when there are fewer.\<close>

definition slice_last :: "nat \<Rightarrow> 'a list \<Rightarrow> 'a list" where
  "slice_last n xs = drop (length xs - n) xs"

text \<open>After the \<^verbatim>\<open>push\<close> the window is never empty, so the three divisions are
  divisions by a positive length.\<close>

definition updatePerformanceMetrics :: "metrics \<Rightarrow> evaluationMetrics \<Rightarrow> evaluationMetrics" where
  "updatePerformanceMetrics m st =
     (let history = queryHistory st @ [m];
          recentQueries = slice_last 100 history;
          n = real (length recentQueries)
      in \<lparr>queryHistory = history,
          performance =
            \<lparr>totalQueries = totalQueries (performance st) + 1,
             avgLatency = foldl (\<lambda>sum q. sum + latency q) 0 recentQueries / n,
             avgRelevanceScore = foldl (\<lambda>sum q. sum + m_relevanceScore q) 0 recentQueries / n,
             successRate = real (length (filter success recentQueries)) / n\<rparr>\<rparr>)"

definition calculateMetrics ::
  "'m response \<Rightarrow> real \<Rightarrow> evaluationMetrics \<Rightarrow> metrics \<times> evaluationMetrics" where
  "calculateMetrics resp lat st =
     (let m = \<lparr>latency = lat,
               m_relevanceScore = relevanceScore resp,
               sourcesCount = length (sources resp),
               contextLength = length (r_context resp),
               success = (length (sources resp) > 0),
               faithfulness = calculateFaithfulness (r_answer resp) (r_context resp),
               answerRelevancy = calculateAnswerRelevancy (r_answer resp) (sources resp),
               contextRecall = calculateContextRecall (sources resp) (r_context resp),
               contextPrecision = calculateContextPrecision (sources resp)\<rparr>
      in (m, updatePerformanceMetrics m st))"

record latencyBuckets =
  fast :: nat
  medium :: nat
  slow :: nat

fun latency_loop :: "metrics list \<Rightarrow> latencyBuckets \<Rightarrow> latencyBuckets" where
  "latency_loop [] buckets = buckets"
| "latency_loop (q # qs) buckets =
     latency_loop qs
       (if latency q < 1000 then buckets\<lparr>fast := fast buckets + 1\<rparr>
        else if latency q < 3000 then buckets\<lparr>medium := medium buckets + 1\<rparr>
        else buckets\<lparr>slow := slow buckets + 1\<rparr>)"

definition getLatencyDistribution :: "metrics list \<Rightarrow> latencyBuckets" where
  "getLatencyDistribution queries = latency_loop queries \<lparr>fast = 0, medium = 0, slow = 0\<rparr>"

text \<open>\<^verbatim>\<open>q.intent || 'general'\<close>: a metrics object has no \<^verbatim>\<open>intent\<close>, so every query
  of the history counts as \<^verbatim>\<open>general\<close>; the object of counts is an association list.\<close>

fun queryType_loop :: "metrics list \<Rightarrow> (string \<times> nat) list \<Rightarrow> (string \<times> nat) list" where
  "queryType_loop [] types = types"
| "queryType_loop (q # qs) types =
     queryType_loop qs
       (case map_of types ''general'' of
          None \<Rightarrow> types @ [(''general'', 1)]
        | Some k \<Rightarrow> map (\<lambda>(t, c). if t = ''general'' then (t, k + 1) else (t, c)) types)"

definition getQueryTypeDistribution :: "metrics list \<Rightarrow> (string \<times> nat) list" where
  "getQueryTypeDistribution queries = queryType_loop queries []"

record detailedMetrics =
  avgFaithfulness :: jsnum
  avgAnswerRelevancy :: jsnum
  avgContextRecall :: jsnum
  avgContextPrecision :: jsnum

record performanceReport =
  overview :: performanceMetrics
  detailed :: detailedMetrics
  latencyDistribution :: latencyBuckets
  queryTypes :: "(string \<times> nat) list"

definition getPerformanceReport :: "evaluationMetrics \<Rightarrow> performanceReport" where
  "getPerformanceReport st =
     (let recent = slice_last 50 (queryHistory st)
      in \<lparr>overview = performance st,
          detailed =
            \<lparr>avgFaithfulness = js_div (foldl (\<lambda>sum q. sum + faithfulness q) 0 recent) (length recent),
             avgAnswerRelevancy = js_div (foldl (\<lambda>sum q. sum + answerRelevancy q) 0 recent) (length recent),
             avgContextRecall = js_div (foldl (\<lambda>sum q. sum + contextRecall q) 0 recent) (length recent),
             avgContextPrecision = js_div (foldl (\<lambda>sum q. sum + contextPrecision q) 0 recent) (length recent)\<rparr>,
          latencyDistribution = getLatencyDistribution recent,
          queryTypes = getQueryTypeDistribution recent\<rparr>)"

section \<open>VectorStore\<close>

text \<open>The rejections of a promise. \<open>TypeError\<close> is the one the modelled code can
  produce (in \<^verbatim>\<open>expandQuery\<close>). \<open>DimensionMismatch\<close> and \<open>EmptySelection\<close> are the error
  kinds the specification names for the query path; no statement of the source raises
  them.\<close>

datatype error = TypeError | DimensionMismatch | EmptySelection

record 'm chunk =
  c_id :: nat
  c_content :: string
  c_type :: string
  c_metadata :: 'm

text \<open>\<^verbatim>\<open>processingResult\<close>, as far as \<^verbatim>\<open>storeDocument\<close> reads it; \<open>None\<close> is a
  missing \<^verbatim>\<open>chunks\<close> field.\<close>

record ('m, 'd) processingResult =
  pr_chunks :: "'m chunk list option"
  pr_metadata :: 'd

record 'm vectorData =
  v_id :: string
  v_documentId :: string
  v_chunkId :: nat
  embedding :: "real list"
  v_content :: string
  v_metadata :: 'm
  v_type :: string

text \<open>\<^verbatim>\<open>{...vectorData, similarity}\<close>.\<close>

record 'm scored = "'m vectorData" +
  v_similarity :: real

text \<open>An entry of \<^verbatim>\<open>this.documents\<close>, without \<^verbatim>\<open>storedAt\<close> (the wall clock).\<close>

record 'd documentInfo =
  d_id :: string
  d_metadata :: 'd
  chunksCount :: nat

text \<open>A JavaScript \<^verbatim>\<open>Map\<close> iterates in the order in which its keys were first set, so
  it is an association list with distinct keys. \<^verbatim>\<open>set\<close> on a key that is present
  replaces the value where it stands; a new key goes to the end.\<close>

fun map_set :: "'k \<Rightarrow> 'v \<Rightarrow> ('k \<times> 'v) list \<Rightarrow> ('k \<times> 'v) list" where
  "map_set k v [] = [(k, v)]"
| "map_set k v ((k', v') # m) = (if k' = k then (k, v) # m else (k', v') # map_set k v m)"

record ('m, 'd) vectorStore =
  vectors :: "(string \<times> 'm vectorData) list"
  documents :: "(string \<times> 'd documentInfo) list"

definition embeddingDimensions :: nat where
  "embeddingDimensions = 384"

definition constructor_VectorStore :: "('m, 'd) vectorStore" where
  "constructor_VectorStore = \<lparr>vectors = [], documents = []\<rparr>"

text \<open>The inner loop of \<^verbatim>\<open>simulateEmbedding\<close>:
  \<^verbatim>\<open>hash = ((hash << 5) - hash + word.charCodeAt(j)) & 0xffffffff\<close>. The operands of
  \<^verbatim>\<open><<\<close> and \<^verbatim>\<open>&\<close> are 32-bit integers, and the difference and sum in between are
  exact, so the hash is computed modulo \<open>2^32\<close> and read as a signed integer.\<close>

fun hashWord :: "32 word \<Rightarrow> string \<Rightarrow> 32 word" where
  "hashWord hash [] = hash"
| "hashWord hash (c # cs) =
     hashWord ((push_bit 5 hash - hash + of_nat (of_char c)) AND 0xffffffff) cs"

text \<open>\<^verbatim>\<open>Math.abs(hash) % this.embeddingDimensions\<close>.\<close>

definition wordIndex :: "string \<Rightarrow> nat" where
  "wordIndex word = nat \<bar>sint (hashWord 0 word)\<bar> mod embeddingDimensions"

fun embed_loop :: "string list \<Rightarrow> real \<Rightarrow> real list \<Rightarrow> real list" where
  "embed_loop [] weight emb = emb"
| "embed_loop (word # ws) weight emb =
     embed_loop ws weight (emb[wordIndex word := emb ! wordIndex word + weight])"

definition simulateEmbedding :: "string \<Rightarrow> real list" where
  "simulateEmbedding text' =
     (let ws = split_ws (toLowerCase text');
          emb = embed_loop ws (1 / sqrt (real (length ws))) (replicate embeddingDimensions 0);
          magnitude = sqrt (foldl (\<lambda>sum val. sum + val * val) 0 emb)
      in if magnitude > 0 then map (\<lambda>val. val / magnitude) emb else emb)"

definition generateEmbeddings :: "'m chunk list \<Rightarrow> real list list" where
  "generateEmbeddings chunks = map (\<lambda>chunk. simulateEmbedding (c_content chunk)) chunks"

text \<open>The loop of \<^verbatim>\<open>storeDocument\<close> over the chunks and their embeddings; the key is
  \<^verbatim>\<open>`${documentId}_${chunks[i].id}`\<close>.\<close>

fun store_loop ::
  "string \<Rightarrow> 'm chunk list \<Rightarrow> real list list \<Rightarrow> (string \<times> 'm vectorData) list
     \<Rightarrow> (string \<times> 'm vectorData) list" where
  "store_loop documentId (chunk # chunks) (e # es) vs =
     store_loop documentId chunks es
       (map_set (documentId @ ''_'' @ show_nat (c_id chunk))
          \<lparr>v_id = documentId @ ''_'' @ show_nat (c_id chunk),
           v_documentId = documentId,
           v_chunkId = c_id chunk,
           embedding = e,
           v_content = c_content chunk,
           v_metadata = c_metadata chunk,
           v_type = c_type chunk\<rparr> vs)"
| "store_loop documentId chunks es vs = vs"

text \<open>\<^verbatim>\<open>storeDocument\<close> returns \<^verbatim>\<open>{success: true, chunksStored}\<close>; the model returns
  the number of chunks stored and the new store.\<close>

definition storeDocument ::
  "string \<Rightarrow> ('m, 'd) processingResult \<Rightarrow> ('m, 'd) vectorStore \<Rightarrow> nat \<times> ('m, 'd) vectorStore" where
  "storeDocument documentId processingResult store =
     (let chunks = (case pr_chunks processingResult of None \<Rightarrow> [] | Some cs \<Rightarrow> cs);
          embeddings = generateEmbeddings chunks;
          docs = map_set documentId
                   \<lparr>d_id = documentId, d_metadata = pr_metadata processingResult,
                    chunksCount = length chunks\<rparr> (documents store)
      in (length chunks,
          \<lparr>vectors = store_loop documentId chunks embeddings (vectors store), documents = docs\<rparr>))"

text \<open>The loop of \<^verbatim>\<open>cosineSimilarity\<close>, run over two arrays of one length; the state
  is \<^verbatim>\<open>(dotProduct, magnitudeA, magnitudeB)\<close>.\<close>

fun cosine_loop :: "real list \<Rightarrow> real list \<Rightarrow> real \<times> real \<times> real \<Rightarrow> real \<times> real \<times> real" where
  "cosine_loop (a # as) (b # bs) (dotProduct, magnitudeA, magnitudeB) =
     cosine_loop as bs (dotProduct + a * b, magnitudeA + a * a, magnitudeB + b * b)"
| "cosine_loop as bs acc = acc"

definition cosineSimilarity :: "real list \<Rightarrow> real list \<Rightarrow> real" where
  "cosineSimilarity vectorA vectorB =
     (if length vectorA \<noteq> length vectorB then 0
      else
        case cosine_loop vectorA vectorB (0, 0, 0) of
          (dotProduct, sumA, sumB) \<Rightarrow>
            let magnitudeA = sqrt sumA; magnitudeB = sqrt sumB
            in if magnitudeA \<noteq> 0 \<and> magnitudeB \<noteq> 0
               then dotProduct / (magnitudeA * magnitudeB) else 0)"



text \<open>The loop of \<^verbatim>\<open>search\<close> over the map. \<open>documentIds\<close> is \<open>None\<close> for \<^verbatim>\<open>null\<close>;
  an array, also the empty one, is truthy and filters.\<close>

fun search_loop ::
  "real list \<Rightarrow> string list option \<Rightarrow> (string \<times> 'm vectorData) list \<Rightarrow> 'm scored list" where
  "search_loop queryEmbedding documentIds [] = []"
| "search_loop queryEmbedding documentIds ((chunkId, vectorData) # vs) =
     (if (case documentIds of None \<Rightarrow> False
                            | Some ids \<Rightarrow> v_documentId vectorData \<notin> set ids)
      then search_loop queryEmbedding documentIds vs
      else \<lparr>v_id = v_id vectorData,
            v_documentId = v_documentId vectorData,
            v_chunkId = v_chunkId vectorData,
            embedding = embedding vectorData,
            v_content = v_content vectorData,
            v_metadata = v_metadata vectorData,
            v_type = v_type vectorData,
            v_similarity = cosineSimilarity queryEmbedding (embedding vectorData)\<rparr>
           # search_loop queryEmbedding documentIds vs)"

text \<open>\<^verbatim>\<open>results.sort((a, b) => b.similarity - a.similarity)\<close>: \<^verbatim>\<open>Array.prototype.sort\<close>
  is stable, and the comparator orders by similarity descending, which is ascending in
  the negated similarity.\<close>

definition sort_by_similarity :: "'m scored list \<Rightarrow> 'm scored list" where
  "sort_by_similarity results = sort_key (\<lambda>r. - v_similarity r) results"

definition search ::
  "real list \<Rightarrow> string list option \<Rightarrow> nat \<Rightarrow> ('m, 'd) vectorStore \<Rightarrow> error + 'm scored list" where
  "search queryEmbedding documentIds limit store =
     Inr (take limit (sort_by_similarity (search_loop queryEmbedding documentIds (vectors store))))"

text \<open>\<^verbatim>\<open>filters\<close>: \<open>None\<close> is an absent key. A present \<^verbatim>\<open>contentType\<close> filters unless
  it is the empty string, a present \<^verbatim>\<open>minSimilarity\<close> unless it is 0 (both falsy).\<close>

record filters =
  contentType :: "string option"
  minSimilarity :: "real option"

record 'm result = "'m source" +
  chunkId :: nat

definition searchWithQuery ::
  "string \<Rightarrow> string list option \<Rightarrow> filters \<Rightarrow> ('m, 'd) vectorStore \<Rightarrow> error + 'm result list" where
  "searchWithQuery query documentIds flt store =
     (let queryEmbedding = simulateEmbedding query
      in case search queryEmbedding documentIds 10 store of
           Inl e \<Rightarrow> Inl e
         | Inr vectorResults \<Rightarrow>
             let filtered1 =
                   (case contentType flt of
                      Some t \<Rightarrow> if t \<noteq> [] then filter (\<lambda>r. v_type r = t) vectorResults
                                else vectorResults
                    | None \<Rightarrow> vectorResults);
                 filtered2 =
                   (case minSimilarity flt of
                      Some m \<Rightarrow> if m \<noteq> 0 then filter (\<lambda>r. v_similarity r \<ge> m) filtered1
                                else filtered1
                    | None \<Rightarrow> filtered1)
             in Inr (map (\<lambda>r. \<lparr>s_content = v_content r,
                                similarity = v_similarity r,
                                s_documentId = v_documentId r,
                                s_type = v_type r,
                                s_metadata = v_metadata r,
                                chunkId = v_chunkId r\<rparr>) filtered2))"

section \<open>RAGPipeline\<close>

definition maxContextLength :: nat where
  "maxContextLength = 4000"

definition topK :: nat where
  "topK = 5"

text \<open>The patterns of \<^verbatim>\<open>classifyIntent\<close> are alternatives of plain words under the flag
  \<^verbatim>\<open>i\<close>, so a pattern matches when one of its alternatives occurs in the lower-cased
  query. The object is walked in the order of its keys; the first match wins.\<close>

definition intents :: "(string \<times> string list) list" where
  "intents =
     [(''factual'', [''what is'', ''define'', ''explain'', ''tell me about'']),
      (''comparison'', [''compare'', ''versus'', ''vs'', ''difference between'']),
      (''procedural'', [''how to'', ''steps'', ''process'', ''procedure'']),
      (''analytical'', [''analyze'', ''analysis'', ''insights'', ''trends'']),
      (''numerical'', [''statistics'', ''numbers'', ''data'', ''metrics'']),
      (''visual'', [''chart'', ''graph'', ''table'', ''image'', ''figure''])]"

fun classify_loop :: "(string \<times> string list) list \<Rightarrow> string \<Rightarrow> string" where
  "classify_loop [] query = ''general''"
| "classify_loop ((intentType, alternatives) # rest) query =
     (if list_ex (\<lambda>alt. includes_str (toLowerCase query) alt) alternatives then intentType
      else classify_loop rest query)"

definition classifyIntent :: "string \<Rightarrow> string" where
  "classifyIntent query = classify_loop intents query"

definition stopWords :: "string list" where
  "stopWords = [''the'', ''is'', ''at'', ''which'', ''on'', ''a'', ''an'', ''and'', ''or'', ''but'']"

definition extractKeywords :: "string \<Rightarrow> string list" where
  "extractKeywords query =
     take 10 (filter (\<lambda>word. length word > 2 \<and> word \<notin> set stopWords)
                (split_ws (toLowerCase query)))"

text \<open>\<^verbatim>\<open>synonyms[keyword]\<close> reads a property of an object literal, so it also finds what
  the literal inherits from \<^verbatim>\<open>Object.prototype\<close>. Of the inherited names, the ones a
  lower-cased keyword can equal are \<^verbatim>\<open>constructor\<close> and \<^verbatim>\<open>__proto__\<close>: both values
  are truthy and have no \<^verbatim>\<open>join\<close>, so the call raises a \<^verbatim>\<open>TypeError\<close>.\<close>

datatype property = Synonyms "string list" | Inherited | Undefined

definition synonyms :: "string \<Rightarrow> property" where
  "synonyms keyword =
     (if keyword = ''data'' then Synonyms [''information'', ''statistics'', ''metrics'']
      else if keyword = ''analyze'' then Synonyms [''examine'', ''study'', ''review'']
      else if keyword = ''show'' then Synonyms [''display'', ''present'', ''demonstrate'']
      else if keyword = ''constructor'' \<or> keyword = ''__proto__'' then Inherited
      else Undefined)"

fun expand_loop :: "string \<Rightarrow> string list \<Rightarrow> error + string" where
  "expand_loop expanded [] = Inr expanded"
| "expand_loop expanded (keyword # rest) =
     (case synonyms keyword of
        Synonyms ws \<Rightarrow> expand_loop (expanded @ '' '' @ join '' '' ws) rest
      | Inherited \<Rightarrow> Inl TypeError
      | Undefined \<Rightarrow> expand_loop expanded rest)"

definition expandQuery :: "string \<Rightarrow> string list \<Rightarrow> error + string" where
  "expandQuery query kws = expand_loop query kws"

text \<open>The object \<^verbatim>\<open>preprocessQuery\<close> returns, without \<^verbatim>\<open>entities\<close>: no function of the
  pipeline reads them.\<close>

record processedQuery =
  pq_text :: string
  pq_intent :: string
  pq_keywords :: "string list"
  processedText :: string

definition preprocessQuery :: "string \<Rightarrow> error + processedQuery" where
  "preprocessQuery query =
     (let intent = classifyIntent query;
          kws = extractKeywords query
      in case expandQuery query kws of
           Inl e \<Rightarrow> Inl e
         | Inr expanded \<Rightarrow>
             Inr \<lparr>pq_text = query, pq_intent = intent, pq_keywords = kws, processedText = expanded\<rparr>)"

record 'm reranked = "'m result" +
  rerankedScore :: real

text \<open>The score \<^verbatim>\<open>rerank\<close> gives one chunk.\<close>

definition rerank_score :: "string \<Rightarrow> ('m, 'z) result_scheme \<Rightarrow> real" where
  "rerank_score query chunk =
     (let score0 = similarity chunk;
          queryWords = split_ws (toLowerCase query);
          contentWords = split_ws (toLowerCase (s_content chunk));
          exactMatches = length (filter (\<lambda>word. word \<in> set contentWords) queryWords);
          score1 = score0 + (real exactMatches / real (length queryWords)) * 0.2;
          score2 = (if includes_str (toLowerCase query) ''table'' \<and> s_type chunk = ''visual_context''
                    then score1 + 0.1 else score1);
          lengthScore = max 0 (1 - \<bar>real (length (s_content chunk)) - 300\<bar> / 1000)
      in score2 + lengthScore * 0.05)"

definition rerank :: "string \<Rightarrow> 'm result list \<Rightarrow> 'm reranked list" where
  "rerank query chunks =
     sort_key (\<lambda>c. - rerankedScore c)
       (map (\<lambda>chunk. \<lparr>s_content = s_content chunk,
                       similarity = similarity chunk,
                       s_documentId = s_documentId chunk,
                       s_type = s_type chunk,
                       s_metadata = s_metadata chunk,
                       chunkId = chunkId chunk,
                       rerankedScore = rerank_score query chunk\<rparr>) chunks)"

text \<open>The loop of \<^verbatim>\<open>buildContext\<close>, which stops at the first chunk that does not fit.\<close>

fun buildContext_loop :: "('m, 'z) source_scheme list \<Rightarrow> string \<Rightarrow> nat \<Rightarrow> string" where
  "buildContext_loop [] context currentLength = context"
| "buildContext_loop (chunk # chunks) context currentLength =
     (let chunkText = ''Source: '' @ s_type chunk @ [CHR 0x0A] @ s_content chunk @ [CHR 0x0A, CHR 0x0A]
      in if currentLength + length chunkText \<le> maxContextLength
         then buildContext_loop chunks (context @ chunkText) (currentLength + length chunkText)
         else context)"

definition buildContext :: "('m, 'z) source_scheme list \<Rightarrow> string" where
  "buildContext chunks = buildContext_loop chunks [] 0"

definition no_information :: string where
  "no_information =
     ''I couldn'' @ [CHR 0x27] @ ''t find specific information in the uploaded documents to answer your question. Please make sure the relevant documents are uploaded and try rephrasing your question.''"

definition summarizeContext :: "string \<Rightarrow> string" where
  "summarizeContext context =
     (if context = [] then no_information
      else
        let sentences = filter (\<lambda>s. length (trim s) > 20) (split_punct context);
            keySentences = join ''. '' (take 3 sentences)
        in keySentences @ (if length sentences > 3 then ''...'' else ''.''))"

definition calculateResponseConfidence :: "string \<Rightarrow> string \<Rightarrow> real" where
  "calculateResponseConfidence context query =
     (let confidence0 = (if length context > 500 then 0.5 + 0.2 else 0.5);
          queryWords = split_ws (toLowerCase query);
          contextWords = split_ws (toLowerCase context);
          matchRatio = real (length (filter (\<lambda>word. word \<in> set contextWords) queryWords))
                       / real (length queryWords)
      in min (confidence0 + matchRatio * 0.3) 1.0)"

definition templates :: "string \<Rightarrow> string \<Rightarrow> string option" where
  "templates query intent =
     (if intent = ''factual''
      then Some (''Based on the provided context, here'' @ [CHR 0x27] @ ''s what I found about ''
                 @ [CHR 0x22] @ query @ [CHR 0x22] @ '':'' @ [CHR 0x0A, CHR 0x0A])
      else if intent = ''comparison''
      then Some (''Comparing the information from the documents:'' @ [CHR 0x0A, CHR 0x0A])
      else if intent = ''procedural''
      then Some (''Here are the steps based on the documentation:'' @ [CHR 0x0A, CHR 0x0A])
      else if intent = ''analytical''
      then Some (''Based on my analysis of the provided data:'' @ [CHR 0x0A, CHR 0x0A])
      else if intent = ''numerical''
      then Some (''Here are the key statistics and numbers:'' @ [CHR 0x0A, CHR 0x0A])
      else if intent = ''visual''
      then Some (''Based on the charts, tables, and visual elements:'' @ [CHR 0x0A, CHR 0x0A])
      else if intent = ''general''
      then Some (''Based on the available information:'' @ [CHR 0x0A, CHR 0x0A])
      else None)"

definition generate :: "string \<Rightarrow> string \<Rightarrow> string \<Rightarrow> answer" where
  "generate query context intent =
     (let template = (case templates query intent of
                        Some t \<Rightarrow> t
                      | None \<Rightarrow> ''Based on the available information:'' @ [CHR 0x0A, CHR 0x0A]);
          contextSummary = summarizeContext context;
          response = template @ contextSummary;
          conf = calculateResponseConfidence context query
      in \<lparr>a_text = response, confidence = conf, a_intent = intent,
          contextUsed = (length context > 0)\<rparr>)"

definition calculateRelevanceScore :: "('m, 'z) source_scheme list \<Rightarrow> answer \<Rightarrow> real" where
  "calculateRelevanceScore chunks resp =
     (if chunks = [] then 0
      else
        let avgSimilarity = foldl (\<lambda>sum chunk. sum + similarity chunk) 0 chunks
                            / real (length chunks);
            responseConfidence = (if confidence resp = 0 then 0.5 else confidence resp)
        in avgSimilarity * 0.6 + responseConfidence * 0.4)"

text \<open>\<^verbatim>\<open>{minSimilarity: 0.3, ...filters}\<close>: a \<^verbatim>\<open>minSimilarity\<close> of the caller replaces the
  default.\<close>

definition query_filters :: "filters \<Rightarrow> filters" where
  "query_filters flt =
     \<lparr>contentType = contentType flt,
      minSimilarity = (case minSimilarity flt of None \<Rightarrow> Some 0.3 | Some m \<Rightarrow> Some m)\<rparr>"

text \<open>\<^verbatim>\<open>RAGPipeline.query\<close>; the store is \<^verbatim>\<open>this.vectorStore\<close>. The \<^verbatim>\<open>catch\<close> block
  throws the error again, so a rejection of a step is the rejection of the query.\<close>

definition query ::
  "string \<Rightarrow> string list option \<Rightarrow> filters \<Rightarrow> ('m, 'd) vectorStore \<Rightarrow> error + 'm response" where
  "query q documentIds flt store =
     (case preprocessQuery q of
        Inl e \<Rightarrow> Inl e
      | Inr processed \<Rightarrow>
          (case searchWithQuery (pq_text processed) documentIds (query_filters flt) store of
             Inl e \<Rightarrow> Inl e
           | Inr relevantChunks \<Rightarrow>
               let rerankedChunks = rerank q relevantChunks;
                   selectedChunks = take topK rerankedChunks;
                   context = buildContext selectedChunks;
                   resp = generate q context (pq_intent processed);
                   score = calculateRelevanceScore selectedChunks resp
               in Inr \<lparr>r_answer = resp,
                       sources = map (\<lambda>chunk. \<lparr>s_content = s_content chunk,
                                                similarity = similarity chunk,
                                                s_documentId = s_documentId chunk,
                                                s_type = s_type chunk,
                                                s_metadata = s_metadata chunk\<rparr>) selectedChunks,
                       relevanceScore = score,
                       r_context = context,
                       queryIntent = pq_intent processed\<rparr>))"

section \<open>DocumentProcessor.createChunks\<close>

text \<open>The metadata of a chunk: \<^verbatim>\<open>{sourceType, chunkType}\<close> for a paragraph, with
  \<^verbatim>\<open>visualElements\<close> and \<^verbatim>\<open>charts\<close> besides for a chunk of an image. The visual
  elements are opaque objects of a type \<open>'v\<close>.\<close>

record 'v chunkMetadata =
  sourceType :: string
  chunkType :: string
  visualElements :: "'v list option"
  charts :: "'v list option"

text \<open>The third argument of \<^verbatim>\<open>createChunks\<close>, as far as it is read; \<open>None\<close> is an
  absent field.\<close>

record 'v auxMetadata =
  aux_tables :: "'v list option"
  aux_charts :: "'v list option"

definition paragraph_chunk :: "nat \<Rightarrow> string \<Rightarrow> string \<Rightarrow> 'v chunkMetadata chunk" where
  "paragraph_chunk chunkId' text' srcType =
     \<lparr>c_id = chunkId', c_content = text', c_type = ''paragraph'',
      c_metadata = \<lparr>sourceType = srcType, chunkType = ''paragraph'',
                    visualElements = None, charts = None\<rparr>\<rparr>"

text \<open>The loop over the sentences of a long paragraph. The state is \<^verbatim>\<open>currentChunk\<close>,
  \<^verbatim>\<open>chunkId\<close> and the array \<^verbatim>\<open>chunks\<close>. An empty \<^verbatim>\<open>currentChunk\<close> is falsy.\<close>

fun sentence_loop ::
  "string \<Rightarrow> string list \<Rightarrow> string \<Rightarrow> nat \<Rightarrow> 'v chunkMetadata chunk list
     \<Rightarrow> string \<times> nat \<times> 'v chunkMetadata chunk list" where
  "sentence_loop srcType [] currentChunk nextId chunks = (currentChunk, nextId, chunks)"
| "sentence_loop srcType (sentence # rest) currentChunk nextId chunks =
     (if length (currentChunk @ sentence) > 500
      then (if currentChunk \<noteq> []
            then sentence_loop srcType rest sentence (nextId + 1)
                   (chunks @ [paragraph_chunk nextId (trim currentChunk) srcType])
            else sentence_loop srcType rest sentence nextId chunks)
      else sentence_loop srcType rest
             (currentChunk @ (if currentChunk \<noteq> [] then ''. '' else []) @ sentence)
             nextId chunks)"

text \<open>The loop over the paragraphs.\<close>

fun paragraph_loop ::
  "string \<Rightarrow> string list \<Rightarrow> nat \<Rightarrow> 'v chunkMetadata chunk list \<Rightarrow> 'v chunkMetadata chunk list" where
  "paragraph_loop srcType [] nextId chunks = chunks"
| "paragraph_loop srcType (paragraph # rest) nextId chunks =
     (if length paragraph > 500
      then (case sentence_loop srcType (split2 CHR ''.'' CHR '' '' paragraph) [] nextId chunks of
              (currentChunk, nextId', chunks') \<Rightarrow>
                if currentChunk \<noteq> []
                then paragraph_loop srcType rest (nextId' + 1)
                       (chunks' @ [paragraph_chunk nextId' (trim currentChunk) srcType])
                else paragraph_loop srcType rest nextId' chunks')
      else paragraph_loop srcType rest (nextId + 1)
             (chunks @ [paragraph_chunk nextId paragraph srcType]))"

text \<open>The loop over the sentences of an image, three at a time.\<close>

fun image_loop ::
  "string \<Rightarrow> 'v auxMetadata \<Rightarrow> string list \<Rightarrow> nat \<Rightarrow> 'v chunkMetadata chunk list" where
  "image_loop srcType aux [] nextId = []"
| "image_loop srcType aux (s1 # rest) nextId =
     \<lparr>c_id = nextId, c_content = join ''. '' (take 3 (s1 # rest)), c_type = ''visual_context'',
      c_metadata = \<lparr>sourceType = srcType, chunkType = ''visual_context'',
                    visualElements = Some (case aux_tables aux of None \<Rightarrow> [] | Some ts \<Rightarrow> ts),
                    charts = Some (case aux_charts aux of None \<Rightarrow> [] | Some cs \<Rightarrow> cs)\<rparr>\<rparr>
     # image_loop srcType aux (drop 2 rest) (nextId + 1)"

definition createChunks :: "string \<Rightarrow> string \<Rightarrow> 'v auxMetadata \<Rightarrow> 'v chunkMetadata chunk list" where
  "createChunks text' srcType aux =
     (if srcType = ''pdf''
      then paragraph_loop srcType
             (filter (\<lambda>p. length (trim p) > 0) (split2 (CHR 0x0A) (CHR 0x0A) text')) 1 []
      else if srcType = ''image''
      then image_loop srcType aux
             (filter (\<lambda>s. length (trim s) > 0) (split2 CHR ''.'' CHR '' '' text')) 1
      else [])"

section \<open>The reranking formula in the words of the specification\<close>

text \<open>The specification gives the combined score of a candidate as
  \<open>similarity + 0.2 \<cdot> exact_keyword_overlap_ratio + 0.1 \<cdot> type_bonus + 0.05 \<cdot> length_score\<close>,
  with the overlap ratio the share of the words of the raw query that occur among the
  words of the content, \<open>length_score = max(0, 1 - |len(content) - 300| / 1000)\<close>, and
  \<open>type_bonus = 0.1\<close> when the raw query mentions \<^verbatim>\<open>table\<close> and the type of the chunk is
  \<^verbatim>\<open>visual_context\<close>, else 0. These definitions follow those words; they are compared
  with \<^verbatim>\<open>rerank\<close> below.\<close>

definition exact_keyword_overlap_ratio :: "string \<Rightarrow> string \<Rightarrow> real" where
  "exact_keyword_overlap_ratio q content =
     real (length (filter (\<lambda>word. word \<in> set (split_ws (toLowerCase content)))
                     (split_ws (toLowerCase q))))
     / real (length (split_ws (toLowerCase q)))"

definition length_score :: "string \<Rightarrow> real" where
  "length_score content = max 0 (1 - \<bar>real (length content) - 300\<bar> / 1000)"

definition mentions_table :: "string \<Rightarrow> string \<Rightarrow> bool" where
  "mentions_table q ty = (includes_str (toLowerCase q) ''table'' \<and> ty = ''visual_context'')"

definition spec_type_bonus :: "string \<Rightarrow> string \<Rightarrow> real" where
  "spec_type_bonus q ty = (if mentions_table q ty then 0.1 else 0)"

definition spec_combined_score :: "string \<Rightarrow> ('m, 'z) result_scheme \<Rightarrow> real" where
  "spec_combined_score q chunk =
     similarity chunk + 0.2 * exact_keyword_overlap_ratio q (s_content chunk)
       + 0.1 * spec_type_bonus q (s_type chunk) + 0.05 * length_score (s_content chunk)"

section \<open>Auxiliary notions and example inputs\<close>


text \<open>A store that holds one document of one chunk.\<close>

definition one_chunk_store :: "(unit, unit) vectorStore" where
  "one_chunk_store =
     snd (storeDocument ''doc''
            \<lparr>pr_chunks = Some [\<lparr>c_id = 1, c_content = ''a'', c_type = ''paragraph'', c_metadata = ()\<rparr>],
             pr_metadata = ()\<rparr>
            constructor_VectorStore)"


text \<open>A store that holds one document of eleven chunks: a chunk of type
  \<^verbatim>\<open>visual_context\<close> with the content \<^verbatim>\<open>display\<close>, stored first, and ten paragraphs
  with the content \<^verbatim>\<open>show\<close>.\<close>

definition ranked_store :: "(unit, unit) vectorStore" where
  "ranked_store =
     snd (storeDocument ''doc''
            \<lparr>pr_chunks = Some
               (\<lparr>c_id = 1, c_content = ''display'', c_type = ''visual_context'', c_metadata = ()\<rparr>
                # map (\<lambda>i. \<lparr>c_id = i, c_content = ''show'', c_type = ''paragraph'', c_metadata = ()\<rparr>)
                    [2, 3, 4, 5, 6, 7, 8, 9, 10, 11]),
             pr_metadata = ()\<rparr>
            constructor_VectorStore)"

text \<open>The record that \<^verbatim>\<open>storeDocument\<close> makes of paragraph \<open>i\<close> of that document.\<close>

definition stored_show :: "nat \<Rightarrow> string \<Rightarrow> unit vectorData" where
  "stored_show i key = \<lparr>v_id = key, v_documentId = ''doc'', v_chunkId = i,
                   embedding = simulateEmbedding ''show'', v_content = ''show'', v_metadata = (),
                   v_type = ''paragraph''\<rparr>"


text \<open>A candidate for reranking.\<close>

definition table_chunk :: "unit result" where
  "table_chunk = \<lparr>s_content = ''table'', similarity = 0.5, s_documentId = ''doc'',
                  s_type = ''visual_context'', s_metadata = (), chunkId = 1\<rparr>"

text \<open>A paragraph of 502 characters: two sentences of 250 characters each, joined by
  \<^verbatim>\<open>'. '\<close>.\<close>

definition long_paragraph :: string where
  "long_paragraph = replicate 250 CHR ''a'' @ ''. '' @ replicate 250 CHR ''b''"

text \<open>A store that holds one document of one chunk, with the content \<^verbatim>\<open>display\<close>.\<close>

definition display_store :: "(unit, unit) vectorStore" where
  "display_store =
     snd (storeDocument ''doc''
            \<lparr>pr_chunks = Some [\<lparr>c_id = 1, c_content = ''display'', c_type = ''paragraph'',
                                 c_metadata = ()\<rparr>],
             pr_metadata = ()\<rparr>
            constructor_VectorStore)"

section \<open>Properties of the evaluation metrics\<close>

lemma foldl_add_bounds:
  fixes f :: "'a \<Rightarrow> real"
  assumes "\<forall>x \<in> set xs. 0 \<le> f x \<and> f x \<le> 1"
  shows "a \<le> foldl (\<lambda>sum x. sum + f x) a xs \<and> foldl (\<lambda>sum x. sum + f x) a xs \<le> a + real (length xs)"
  using assms
proof (induction xs arbitrary: a)
  case Nil
  then show ?case by simp
next
  case (Cons x xs)
  have fx: "0 \<le> f x" "f x \<le> 1" using Cons.prems by auto
  have "\<forall>y \<in> set xs. 0 \<le> f y \<and> f y \<le> 1" using Cons.prems by simp
  from Cons.IH [OF this, of "a + f x"] fx show ?case by simp
qed

lemma precision_loop_bounds:
  "relevantFound \<le> index \<Longrightarrow>
   cp \<le> precision_loop ss index relevantFound cp \<and>
   precision_loop ss index relevantFound cp
     \<le> cp + real (length (filter (\<lambda>s. similarity s > 0.5) ss))"
proof (induction ss arbitrary: index relevantFound cp)
  case Nil
  then show ?case by simp
next
  case (Cons s ss)
  define n where "n = real (length (filter (\<lambda>s. similarity s > 0.5) ss))"
  show ?case
  proof (cases "similarity s > 0.5")
    case True
    define t where "t = real (relevantFound + 1) / real (index + 1)"
    define r where "r = precision_loop ss (index + 1) (relevantFound + 1) (cp + t)"
    have le: "relevantFound + 1 \<le> index + 1" using Cons.prems by simp
    have t0: "0 \<le> t" unfolding t_def by simp
    have t1: "t \<le> 1" unfolding t_def using le by (simp add: divide_le_eq_1)
    have ih: "cp + t \<le> r \<and> r \<le> cp + t + n"
      unfolding r_def n_def by (rule Cons.IH [OF le])
    have step: "precision_loop (s # ss) index relevantFound cp = r"
      unfolding r_def t_def using True by simp
    have cnt: "real (length (filter (\<lambda>s. similarity s > 0.5) (s # ss))) = n + 1"
      unfolding n_def using True by simp
    show ?thesis unfolding step cnt using ih t0 t1 by linarith
  next
    case False
    define r where "r = precision_loop ss (index + 1) relevantFound cp"
    have le: "relevantFound \<le> index + 1" using Cons.prems by simp
    have ih: "cp \<le> r \<and> r \<le> cp + n"
      unfolding r_def n_def by (rule Cons.IH [OF le])
    have step: "precision_loop (s # ss) index relevantFound cp = r"
      unfolding r_def using False by simp
    have cnt: "real (length (filter (\<lambda>s. similarity s > 0.5) (s # ss))) = n"
      unfolding n_def using False by simp
    show ?thesis unfolding step cnt using ih by linarith
  qed
qed

lemma faithfulness_range:
  "0 \<le> calculateFaithfulness ans ctx \<and> calculateFaithfulness ans ctx \<le> 1"
proof -
  have "real (length (filter P ws)) / real (length ws) \<le> 1" if "ws \<noteq> []"
    for P and ws :: "string list"
  proof -
    have "length (filter P ws) \<le> length ws" by simp
    then show ?thesis using that by (simp add: divide_le_eq_1)
  qed
  then show ?thesis
    by (simp add: calculateFaithfulness_def Let_def)
qed

lemma contextRecall_range:
  "0 \<le> calculateContextRecall srcs ctx \<and> calculateContextRecall srcs ctx \<le> 1"
proof -
  have "length (filter (\<lambda>s. similarity s > 0.7) srcs) \<le> length srcs" by simp
  then show ?thesis
    by (simp add: calculateContextRecall_def Let_def divide_le_eq_1 del: length_filter_le)
qed

lemma contextPrecision_range:
  "0 \<le> calculateContextPrecision srcs \<and> calculateContextPrecision srcs \<le> 1"
proof -
  let ?n = "length (filter (\<lambda>s. similarity s > 0.5) srcs)"
  have b: "0 \<le> precision_loop srcs 0 0 0 \<and> precision_loop srcs 0 0 0 \<le> real ?n"
    using precision_loop_bounds [of 0 0 0 srcs] by simp
  show ?thesis
  proof (cases "srcs = [] \<or> ?n = 0")
    case True
    then show ?thesis by (auto simp: calculateContextPrecision_def Let_def)
  next
    case False
    then have n: "0 < real ?n" by simp
    have "precision_loop srcs 0 0 0 / real ?n \<le> 1"
      using b n by (simp add: divide_le_eq_1)
    moreover have "0 \<le> precision_loop srcs 0 0 0 / real ?n" using b by simp
    ultimately show ?thesis using False
      by (simp add: calculateContextPrecision_def Let_def)
  qed
qed

lemma answerRelevancy_range:
  assumes "\<forall>s \<in> set srcs. 0 \<le> similarity s \<and> similarity s \<le> 1"
    and "0 \<le> confidence ans \<and> confidence ans \<le> 1"
  shows "0 \<le> calculateAnswerRelevancy ans srcs \<and> calculateAnswerRelevancy ans srcs \<le> 1"
proof (cases "srcs = []")
  case True
  then show ?thesis by (simp add: calculateAnswerRelevancy_def)
next
  case False
  define total where "total = foldl (\<lambda>sum s. sum + similarity s) 0 srcs"
  define avg where "avg = total / real (length srcs)"
  define c where "c = (if confidence ans = 0 then 0.5 else confidence ans)"
  have n: "0 < real (length srcs)" using False by simp
  have s: "0 \<le> total \<and> total \<le> real (length srcs)"
    unfolding total_def using foldl_add_bounds [OF assms(1), of 0] by simp
  have avg: "0 \<le> avg \<and> avg \<le> 1" unfolding avg_def using s n by (simp add: divide_le_eq_1)
  have c: "0 \<le> c \<and> c \<le> 1" unfolding c_def using assms(2) by simp
  have "calculateAnswerRelevancy ans srcs = (avg + c) / 2"
    unfolding avg_def total_def c_def using False
    by (simp add: calculateAnswerRelevancy_def Let_def)
  then show ?thesis using avg c by simp
qed

lemma foldl_add_sum_list:
  fixes f :: "'a \<Rightarrow> real"
  shows "foldl (\<lambda>sum x. sum + f x) a xs = a + sum_list (map f xs)"
  by (induction xs arbitrary: a) simp_all

lemma answerRelevancy_average:
  assumes "srcs \<noteq> []" "confidence ans \<noteq> 0"
  shows "calculateAnswerRelevancy ans srcs
           = (sum_list (map similarity srcs) / real (length srcs) + confidence ans) / 2"
  using assms by (simp add: calculateAnswerRelevancy_def foldl_add_sum_list Let_def)

text \<open>
  Claim C5. Faithfulness, context recall and context precision lie in \<open>[0, 1]\<close> for
  every answer, source list and context. Answer relevancy lies in \<open>[0, 1]\<close> for all valid
  inputs: those whose source similarities and answer confidence are in \<open>[0, 1]\<close>. It is
  the average of the mean source similarity and the answer confidence whenever there is a
  source and the confidence is not 0 (no source gives 0; a confidence of 0 counts as 0.5).
\<close>

theorem metric_ranges:
  "0 \<le> calculateFaithfulness ans ctx \<and> calculateFaithfulness ans ctx \<le> 1
   \<and> 0 \<le> calculateContextRecall srcs ctx \<and> calculateContextRecall srcs ctx \<le> 1
   \<and> 0 \<le> calculateContextPrecision srcs \<and> calculateContextPrecision srcs \<le> 1
   \<and> ((\<forall>s \<in> set srcs. 0 \<le> similarity s \<and> similarity s \<le> 1)
        \<and> 0 \<le> confidence ans \<and> confidence ans \<le> 1
      \<longrightarrow> 0 \<le> calculateAnswerRelevancy ans srcs \<and> calculateAnswerRelevancy ans srcs \<le> 1)
   \<and> (srcs \<noteq> [] \<and> confidence ans \<noteq> 0
      \<longrightarrow> calculateAnswerRelevancy ans srcs
            = (sum_list (map similarity srcs) / real (length srcs) + confidence ans) / 2)"
  using faithfulness_range [of ans ctx] answerRelevancy_range [of srcs ans]
    contextRecall_range [of srcs ctx] contextPrecision_range [of srcs]
    answerRelevancy_average [of srcs ans]
  by simp

theorem metric_ranges_witness:
  "0 \<le> similarity \<lparr>s_content = ''Revenue grew 10%.'', similarity = 0.9, s_documentId = ''d1'',
                     s_type = ''paragraph'', s_metadata = ()\<rparr>
   \<and> similarity \<lparr>s_content = ''Revenue grew 10%.'', similarity = 0.9, s_documentId = ''d1'',
                   s_type = ''paragraph'', s_metadata = ()\<rparr> \<le> 1
   \<and> 0 \<le> similarity \<lparr>s_content = ''Costs fell.'', similarity = 0.4, s_documentId = ''d1'',
                       s_type = ''paragraph'', s_metadata = ()\<rparr>
   \<and> similarity \<lparr>s_content = ''Costs fell.'', similarity = 0.4, s_documentId = ''d1'',
                   s_type = ''paragraph'', s_metadata = ()\<rparr> \<le> 1
   \<and> 0 \<le> confidence \<lparr>a_text = ''Revenue grew'', confidence = 0.8, a_intent = ''general'',
                       contextUsed = True\<rparr>
   \<and> confidence \<lparr>a_text = ''Revenue grew'', confidence = 0.8, a_intent = ''general'',
                   contextUsed = True\<rparr> \<le> 1
   \<and> 0 \<le> calculateAnswerRelevancy
           \<lparr>a_text = ''Revenue grew'', confidence = 0.8, a_intent = ''general'', contextUsed = True\<rparr>
           [\<lparr>s_content = ''Revenue grew 10%.'', similarity = 0.9, s_documentId = ''d1'',
              s_type = ''paragraph'', s_metadata = ()\<rparr>,
            \<lparr>s_content = ''Costs fell.'', similarity = 0.4, s_documentId = ''d1'',
              s_type = ''paragraph'', s_metadata = ()\<rparr>]
   \<and> calculateAnswerRelevancy
           \<lparr>a_text = ''Revenue grew'', confidence = 0.8, a_intent = ''general'', contextUsed = True\<rparr>
           [\<lparr>s_content = ''Revenue grew 10%.'', similarity = 0.9, s_documentId = ''d1'',
              s_type = ''paragraph'', s_metadata = ()\<rparr>,
            \<lparr>s_content = ''Costs fell.'', similarity = 0.4, s_documentId = ''d1'',
              s_type = ''paragraph'', s_metadata = ()\<rparr>] \<le> 1
   \<and> 0 \<le> calculateFaithfulness
           \<lparr>a_text = ''Revenue grew'', confidence = 0.8, a_intent = ''general'', contextUsed = True\<rparr>
           ''Source: paragraph''
   \<and> calculateFaithfulness
           \<lparr>a_text = ''Revenue grew'', confidence = 0.8, a_intent = ''general'', contextUsed = True\<rparr>
           ''Source: paragraph'' \<le> 1
   \<and> calculateAnswerRelevancy
           \<lparr>a_text = ''Revenue grew'', confidence = 0.8, a_intent = ''general'', contextUsed = True\<rparr>
           [\<lparr>s_content = ''Revenue grew 10%.'', similarity = 0.9, s_documentId = ''d1'',
              s_type = ''paragraph'', s_metadata = ()\<rparr>,
            \<lparr>s_content = ''Costs fell.'', similarity = 0.4, s_documentId = ''d1'',
              s_type = ''paragraph'', s_metadata = ()\<rparr>] = 29 / 40"
proof -
  let ?srcs = "[\<lparr>s_content = ''Revenue grew 10%.'', similarity = 0.9, s_documentId = ''d1'',
                    s_type = ''paragraph'', s_metadata = ()\<rparr>,
                  \<lparr>s_content = ''Costs fell.'', similarity = 0.4, s_documentId = ''d1'',
                    s_type = ''paragraph'', s_metadata = ()\<rparr>]"
  let ?ans = "\<lparr>a_text = ''Revenue grew'', confidence = 0.8, a_intent = ''general'',
                contextUsed = True\<rparr>"
  have h1: "\<forall>s \<in> set ?srcs. 0 \<le> similarity s \<and> similarity s \<le> 1" by simp
  have h2: "0 \<le> confidence ?ans \<and> confidence ?ans \<le> 1" by simp
  from metric_ranges [of ?ans "''Source: paragraph''" ?srcs] h1 h2 show ?thesis by simp
qed

section \<open>The performance report of an empty history\<close>

text \<open>
  Claim C10. With an empty query history \<^verbatim>\<open>getPerformanceReport\<close> divides 0 by 0:
  each of the four averaged detailed metrics is NaN (no error is raised, no zero is
  returned), and the three latency buckets are 0.
\<close>

theorem getPerformanceReport_empty_history:
  assumes "queryHistory st = []"
  shows "detailed (getPerformanceReport st) =
           \<lparr>avgFaithfulness = NaN, avgAnswerRelevancy = NaN,
            avgContextRecall = NaN, avgContextPrecision = NaN\<rparr>
         \<and> latencyDistribution (getPerformanceReport st) = \<lparr>fast = 0, medium = 0, slow = 0\<rparr>"
  using assms
  by (simp add: getPerformanceReport_def slice_last_def js_div_def getLatencyDistribution_def)

theorem getPerformanceReport_empty_history_witness:
  "queryHistory constructor_EvaluationMetrics = []
   \<and> detailed (getPerformanceReport constructor_EvaluationMetrics) =
           \<lparr>avgFaithfulness = NaN, avgAnswerRelevancy = NaN,
            avgContextRecall = NaN, avgContextPrecision = NaN\<rparr>
   \<and> latencyDistribution (getPerformanceReport constructor_EvaluationMetrics)
       = \<lparr>fast = 0, medium = 0, slow = 0\<rparr>"
proof -
  have h: "queryHistory constructor_EvaluationMetrics = []"
    by (simp add: constructor_EvaluationMetrics_def)
  from h getPerformanceReport_empty_history [OF h] show ?thesis by simp
qed

section \<open>Properties of the vector index\<close>

subsection \<open>The scan and the stable sort\<close>

text \<open>The keys of the map after \<^verbatim>\<open>set\<close>: a key that is present keeps its place, a new
  key goes to the end, so the list is in the order of first insertion.\<close>

lemma map_set_keys:
  "map fst (map_set k v m) = (if k \<in> set (map fst m) then map fst m else map fst m @ [k])"
proof (induction m)
  case Nil
  show ?case by simp
next
  case (Cons p m)
  then show ?case by (cases p) force
qed

lemma map_set_new_key:
  "k \<notin> set (map fst m) \<Longrightarrow> map_set k v m = m @ [(k, v)]"
  by (induction m) auto




lemma search_loop_eq:
  "search_loop q ids vs =
     map (\<lambda>v. vectorData.extend v (scored.fields (cosineSimilarity q (embedding v))))
       (filter (\<lambda>v. case ids of None \<Rightarrow> True | Some l \<Rightarrow> v_documentId v \<in> set l) (map snd vs))"
  by (induction vs) (auto simp: vectorData.defs scored.defs split: option.splits)

lemma truncate_extend: "vectorData.truncate (vectorData.extend v (scored.fields s)) = v"
  by (simp add: vectorData.defs scored.defs)


lemma length_search_loop:
  "length (search_loop q ids vs) = length (filter
          (\<lambda>(k, v). case ids of None \<Rightarrow> True | Some l \<Rightarrow> v_documentId v \<in> set l) vs)"
  by (induction vs) (simp_all split: option.splits prod.splits)

lemma search_loop_member:
  assumes "r \<in> set (search_loop q ids vs)"
  shows "vectorData.truncate r \<in> snd ` set vs
         \<and> v_similarity r = cosineSimilarity q (embedding r)"
proof -
  from assms obtain v where v: "v \<in> set (map snd vs)"
    "r = vectorData.extend v (scored.fields (cosineSimilarity q (embedding v)))"
    unfolding search_loop_eq by auto
  have "vectorData.truncate r = v" unfolding v(2) by (rule truncate_extend)
  moreover have "embedding r = embedding v" "v_similarity r = cosineSimilarity q (embedding v)"
    unfolding v(2) by (simp_all add: vectorData.defs scored.defs)
  ultimately show ?thesis using v(1) by simp
qed

lemma length_embed_loop: "length (embed_loop ws w emb) = length emb"
  by (induction ws arbitrary: emb) simp_all

lemma length_simulateEmbedding: "length (simulateEmbedding t) = embeddingDimensions"
  by (simp add: simulateEmbedding_def Let_def length_embed_loop)

lemma show_nat_1: "show_nat (Suc 0) = ''1''"
proof -
  have "show_nat 1 = ''1''" by code_simp
  then show ?thesis by simp
qed

lemma one_chunk_store_vectors:
  "vectors one_chunk_store =
     [(''doc_1'', \<lparr>v_id = ''doc_1'', v_documentId = ''doc'', v_chunkId = 1,
                   embedding = simulateEmbedding ''a'', v_content = ''a'', v_metadata = (),
                   v_type = ''paragraph''\<rparr>)]"
  by (simp add: one_chunk_store_def storeDocument_def constructor_VectorStore_def
      generateEmbeddings_def show_nat_1 Let_def)




subsection \<open>A query embedding of the wrong length\<close>

text \<open>
  Claim C1, as stated, fails: a query embedding whose length differs from the stored
  dimensionality (384) raises nothing. For the one-element query \<open>[1]\<close> and a store
  whose only embedding has 384 entries, \<^verbatim>\<open>search\<close> resolves with a result list that holds
  the stored record at similarity 0.
\<close>

theorem search_dimension_mismatch_counterexample:
  "length [1 :: real] \<noteq> embeddingDimensions
   \<and> length (simulateEmbedding ''a'') = embeddingDimensions
   \<and> search [1] None 10 one_chunk_store =
       Inr [\<lparr>v_id = ''doc_1'', v_documentId = ''doc'', v_chunkId = 1,
             embedding = simulateEmbedding ''a'', v_content = ''a'', v_metadata = (),
             v_type = ''paragraph'', v_similarity = 0\<rparr>]"
  by (simp add: search_def one_chunk_store_vectors sort_by_similarity_def cosineSimilarity_def
      length_simulateEmbedding embeddingDimensions_def)


text \<open>
  Claim C1, amended. \<^verbatim>\<open>search\<close> never rejects: for every query embedding it returns a
  result list, of as many records as the limit and the document filter allow. Every result
  is a stored record as it was stored (its embedding neither truncated nor padded), and a
  record whose embedding differs in length from the query embedding has similarity 0.
\<close>

theorem search_dimension_mismatch:
  fixes store :: "('m, 'd) vectorStore"
  shows "\<exists>rs. search q ids limit store = Inr rs
     \<and> length rs = min limit (length (filter
          (\<lambda>(k, v). case ids of None \<Rightarrow> True | Some l \<Rightarrow> v_documentId v \<in> set l) (vectors store)))
     \<and> (\<forall>r \<in> set rs. vectorData.truncate r \<in> snd ` set (vectors store))
     \<and> (\<forall>r \<in> set rs. length (embedding r) \<noteq> length q \<longrightarrow> v_similarity r = 0)"
proof -
  define L where "L = search_loop q ids (vectors store)"
  define rs where "rs = take limit (sort_by_similarity L)"
  have sub: "set rs \<subseteq> set L"
    unfolding rs_def sort_by_similarity_def
    using set_take_subset [of limit "sort_key (\<lambda>r. - v_similarity r) L"] by simp
  have len: "length rs = min limit (length (filter
          (\<lambda>(k, v). case ids of None \<Rightarrow> True | Some l \<Rightarrow> v_documentId v \<in> set l) (vectors store)))"
    unfolding rs_def L_def sort_by_similarity_def by (simp add: length_search_loop min.commute)
  have mem: "vectorData.truncate r \<in> snd ` set (vectors store)
             \<and> v_similarity r = cosineSimilarity q (embedding r)" if "r \<in> set rs" for r
    using that sub search_loop_member [of r q ids "vectors store"] unfolding L_def by blast
  have zero: "v_similarity r = 0" if "r \<in> set rs" "length (embedding r) \<noteq> length q" for r
    using mem [OF that(1)] that(2) by (simp add: cosineSimilarity_def)
  have "search q ids limit store = Inr rs"
    by (simp add: search_def rs_def L_def)
  with len mem zero show ?thesis by blast
qed


theorem search_dimension_mismatch_witness:
  "\<exists>rs. search [1] None 10 one_chunk_store = Inr rs
     \<and> \<lparr>v_id = ''doc_1'', v_documentId = ''doc'', v_chunkId = 1,
          embedding = simulateEmbedding ''a'', v_content = ''a'', v_metadata = (),
          v_type = ''paragraph'', v_similarity = 0\<rparr> \<in> set rs
     \<and> length (simulateEmbedding ''a'') \<noteq> length [1 :: real]
     \<and> length rs = 1"
proof -
  from search_dimension_mismatch [of "[1]" None 10 one_chunk_store]
  obtain rs where rs: "search [1] None 10 one_chunk_store = Inr rs"
    "length rs = min 10 (length (filter (\<lambda>(k, v). case None of None \<Rightarrow> True
        | Some l \<Rightarrow> v_documentId v \<in> set l) (vectors one_chunk_store)))"
    "\<forall>r \<in> set rs. vectorData.truncate r \<in> snd ` set (vectors one_chunk_store)"
    "\<forall>r \<in> set rs. length (embedding r) \<noteq> length [1 :: real] \<longrightarrow> v_similarity r = 0"
    by blast
  have len: "length rs = 1" using rs(2) by (simp add: one_chunk_store_vectors)
  then obtain r where r: "rs = [r]" by (cases rs) auto
  have t: "vectorData.truncate r = \<lparr>v_id = ''doc_1'', v_documentId = ''doc'', v_chunkId = 1,
                   embedding = simulateEmbedding ''a'', v_content = ''a'', v_metadata = (),
                   v_type = ''paragraph''\<rparr>"
    using rs(3) r by (simp add: one_chunk_store_vectors)
  then have e: "embedding r = simulateEmbedding ''a''"
    by (cases r) (simp add: vectorData.defs)
  have ne: "length (simulateEmbedding ''a'') \<noteq> length [1 :: real]"
    by (simp add: length_simulateEmbedding embeddingDimensions_def)
  then have z: "v_similarity r = 0" using rs(4) r e by simp
  have "r = \<lparr>v_id = ''doc_1'', v_documentId = ''doc'', v_chunkId = 1,
          embedding = simulateEmbedding ''a'', v_content = ''a'', v_metadata = (),
          v_type = ''paragraph'', v_similarity = 0\<rparr>"
    using t z by (cases r) (simp add: vectorData.defs)
  then show ?thesis using rs(1) r ne len by auto
qed


subsection \<open>Ranking\<close>



subsection \<open>The ten most similar records and the filters\<close>

lemma show_nat_upto_11:
  "show_nat 2 = ''2''" "show_nat 3 = ''3''" "show_nat 4 = ''4''" "show_nat 5 = ''5''"
  "show_nat 6 = ''6''" "show_nat 7 = ''7''" "show_nat 8 = ''8''" "show_nat 9 = ''9''"
  "show_nat 10 = ''10''" "show_nat 11 = ''11''"
  by code_simp+

lemma searchWithQuery_eq:
  fixes store :: "('m, 'd) vectorStore"
  shows "\<exists>top. search (simulateEmbedding q) ids 10 store = Inr top \<and> length top \<le> 10 \<and>
     searchWithQuery q ids flt store =
       Inr (map (\<lambda>r. \<lparr>s_content = v_content r, similarity = v_similarity r,
                       s_documentId = v_documentId r, s_type = v_type r,
                       s_metadata = v_metadata r, chunkId = v_chunkId r\<rparr>)
              (filter (\<lambda>r. case minSimilarity flt of
                              None \<Rightarrow> True | Some m \<Rightarrow> m = 0 \<or> m \<le> v_similarity r)
                 (filter (\<lambda>r. case contentType flt of
                                 None \<Rightarrow> True | Some t \<Rightarrow> t = [] \<or> v_type r = t) top)))"
proof -
  define top where
    "top = take 10 (sort_by_similarity (search_loop (simulateEmbedding q) ids (vectors store)))"
  have s: "search (simulateEmbedding q) ids 10 store = Inr top"
    by (simp add: search_def top_def)
  have l: "length top \<le> 10" by (simp add: top_def)
  have f1: "(case contentType flt of
               Some t \<Rightarrow> if t \<noteq> [] then filter (\<lambda>r. v_type r = t) top else top
             | None \<Rightarrow> top)
            = filter (\<lambda>r. case contentType flt of
                             None \<Rightarrow> True | Some t \<Rightarrow> t = [] \<or> v_type r = t) top"
    by (simp split: option.splits)
  have f2: "(case minSimilarity flt of
               Some m \<Rightarrow> if m \<noteq> 0 then filter (\<lambda>r. v_similarity r \<ge> m) xs else xs
             | None \<Rightarrow> xs)
            = filter (\<lambda>r. case minSimilarity flt of
                             None \<Rightarrow> True | Some m \<Rightarrow> m = 0 \<or> m \<le> v_similarity r) xs"
    for xs :: "'m scored list"
    by (simp split: option.splits)
  have "searchWithQuery q ids flt store =
       Inr (map (\<lambda>r. \<lparr>s_content = v_content r, similarity = v_similarity r,
                       s_documentId = v_documentId r, s_type = v_type r,
                       s_metadata = v_metadata r, chunkId = v_chunkId r\<rparr>)
              (filter (\<lambda>r. case minSimilarity flt of
                              None \<Rightarrow> True | Some m \<Rightarrow> m = 0 \<or> m \<le> v_similarity r)
                 (filter (\<lambda>r. case contentType flt of
                                 None \<Rightarrow> True | Some t \<Rightarrow> t = [] \<or> v_type r = t) top)))"
    unfolding searchWithQuery_def Let_def s sum.case f1 f2 ..
  with s l show ?thesis by blast
qed

text \<open>The result of \<^verbatim>\<open>search\<close> with the limit 10 is the first ten of a list that is
  sorted by descending similarity and holds each eligible record once, with the
  similarity of its embedding to the query's.\<close>

lemma count_list_insort_key:
  "count_list (insort_key f y ys) x = count_list (y # ys) x"
  by (induction ys) auto

lemma count_list_sort_key:
  "count_list (sort_key f xs) x = count_list xs x"
  by (induction xs) (simp_all add: count_list_insort_key)

lemma search_loop_explicit:
  "search_loop e ids vs =
     map (\<lambda>(k, v). \<lparr>v_id = v_id v, v_documentId = v_documentId v, v_chunkId = v_chunkId v,
                     embedding = embedding v, v_content = v_content v,
                     v_metadata = v_metadata v, v_type = v_type v,
                     v_similarity = cosineSimilarity e (embedding v)\<rparr>)
       (filter (\<lambda>(k, v). case ids of None \<Rightarrow> True | Some l \<Rightarrow> v_documentId v \<in> set l) vs)"
  by (induction vs) (simp_all split: option.splits prod.splits)

lemma searchWithQuery_top:
  fixes store :: "('m, 'd) vectorStore"
  shows "\<exists>top rest.
     searchWithQuery q ids flt store =
       Inr (map (\<lambda>r. \<lparr>s_content = v_content r, similarity = v_similarity r,
                       s_documentId = v_documentId r, s_type = v_type r,
                       s_metadata = v_metadata r, chunkId = v_chunkId r\<rparr>)
              (filter (\<lambda>r. case minSimilarity flt of
                              None \<Rightarrow> True | Some m \<Rightarrow> m = 0 \<or> m \<le> v_similarity r)
                 (filter (\<lambda>r. case contentType flt of
                                 None \<Rightarrow> True | Some t \<Rightarrow> t = [] \<or> v_type r = t) top)))
     \<and> search (simulateEmbedding q) ids 10 store = Inr top
     \<and> length top = min 10 (length (top @ rest))
     \<and> sorted_wrt (\<lambda>a b. v_similarity b \<le> v_similarity a) (top @ rest)
     \<and> (\<forall>x. count_list (top @ rest) x =
              count_list
                (map (\<lambda>(k, v). \<lparr>v_id = v_id v, v_documentId = v_documentId v,
                                 v_chunkId = v_chunkId v, embedding = embedding v,
                                 v_content = v_content v, v_metadata = v_metadata v,
                                 v_type = v_type v,
                                 v_similarity = cosineSimilarity (simulateEmbedding q) (embedding v)\<rparr>)
                   (filter (\<lambda>(k, v). case ids of None \<Rightarrow> True
                                       | Some l \<Rightarrow> v_documentId v \<in> set l) (vectors store))) x)"
proof -
  define L where "L = search_loop (simulateEmbedding q) ids (vectors store)"
  define S where "S = sort_by_similarity L"
  define top where "top = take 10 S"
  define rest where "rest = drop 10 S"
  have tr: "top @ rest = S" by (simp add: top_def rest_def)
  have s: "search (simulateEmbedding q) ids 10 store = Inr top"
    by (simp add: search_def top_def S_def L_def)
  have len: "length top = min 10 (length (top @ rest))"
    unfolding tr by (simp add: top_def min.commute)
  have "sorted (map (\<lambda>r. - v_similarity r) S)"
    unfolding S_def sort_by_similarity_def by (rule sorted_sort_key)
  then have srt: "sorted_wrt (\<lambda>a b. v_similarity b \<le> v_similarity a) (top @ rest)"
    unfolding tr by (simp add: sorted_map)
  have cnt: "count_list (top @ rest) x =
              count_list
                (map (\<lambda>(k, v). \<lparr>v_id = v_id v, v_documentId = v_documentId v,
                                 v_chunkId = v_chunkId v, embedding = embedding v,
                                 v_content = v_content v, v_metadata = v_metadata v,
                                 v_type = v_type v,
                                 v_similarity = cosineSimilarity (simulateEmbedding q) (embedding v)\<rparr>)
                   (filter (\<lambda>(k, v). case ids of None \<Rightarrow> True
                                       | Some l \<Rightarrow> v_documentId v \<in> set l) (vectors store))) x" for x
    unfolding tr S_def sort_by_similarity_def count_list_sort_key L_def search_loop_explicit ..
  have f1: "(case contentType flt of
               Some t \<Rightarrow> if t \<noteq> [] then filter (\<lambda>r. v_type r = t) top else top
             | None \<Rightarrow> top)
            = filter (\<lambda>r. case contentType flt of
                             None \<Rightarrow> True | Some t \<Rightarrow> t = [] \<or> v_type r = t) top"
    by (simp split: option.splits)
  have f2: "(case minSimilarity flt of
               Some m \<Rightarrow> if m \<noteq> 0 then filter (\<lambda>r. v_similarity r \<ge> m) xs else xs
             | None \<Rightarrow> xs)
            = filter (\<lambda>r. case minSimilarity flt of
                             None \<Rightarrow> True | Some m \<Rightarrow> m = 0 \<or> m \<le> v_similarity r) xs"
    for xs :: "'m scored list"
    by (simp split: option.splits)
  have sw: "searchWithQuery q ids flt store =
       Inr (map (\<lambda>r. \<lparr>s_content = v_content r, similarity = v_similarity r,
                       s_documentId = v_documentId r, s_type = v_type r,
                       s_metadata = v_metadata r, chunkId = v_chunkId r\<rparr>)
              (filter (\<lambda>r. case minSimilarity flt of
                              None \<Rightarrow> True | Some m \<Rightarrow> m = 0 \<or> m \<le> v_similarity r)
                 (filter (\<lambda>r. case contentType flt of
                                 None \<Rightarrow> True | Some t \<Rightarrow> t = [] \<or> v_type r = t) top)))"
    unfolding searchWithQuery_def Let_def s sum.case f1 f2 ..
  from sw s len srt cnt show ?thesis by blast
qed

section \<open>Properties of the cosine similarity\<close>

subsection \<open>In exact arithmetic\<close>








subsection \<open>On doubles that do not overflow\<close>


















section \<open>Properties of the reranker\<close>

lemma table_words:
  "split_ws (toLowerCase ''table'') = [''table'']"
  "includes_str (toLowerCase ''table'') ''table''"
  by code_simp+

lemma rerank_score_formula:
  "rerank_score q c =
     similarity c + 0.2 * exact_keyword_overlap_ratio q (s_content c)
       + 0.1 * (if mentions_table q (s_type c) then 1 else 0) + 0.05 * length_score (s_content c)"
  by (simp add: rerank_score_def exact_keyword_overlap_ratio_def length_score_def
      mentions_table_def Let_def)

lemma rerank_set:
  "set (rerank q chunks) =
     (\<lambda>chunk. result.extend chunk (reranked.fields (rerank_score q chunk))) ` set chunks"
  by (simp add: rerank_def result.defs reranked.defs source.defs)

text \<open>
  Claim C8, as stated, fails: with \<open>type_bonus = 0.1\<close> the term \<open>0.1 \<cdot> type_bonus\<close> of the
  formula is 0.01, while \<^verbatim>\<open>rerank\<close> adds 0.1. For the query \<^verbatim>\<open>table\<close> and a chunk of type
  \<^verbatim>\<open>visual_context\<close> with content \<^verbatim>\<open>table\<close> and similarity 0.5, \<^verbatim>\<open>rerank\<close> gives the
  score 0.83525, the formula of the claim 0.74525.
\<close>

theorem rerank_type_bonus_counterexample:
  "map rerankedScore (rerank ''table'' [table_chunk]) = [3341 / 4000]
   \<and> spec_combined_score ''table'' table_chunk = 2981 / 4000"
  by (simp add: rerank_def rerank_score_def spec_combined_score_def spec_type_bonus_def
      exact_keyword_overlap_ratio_def length_score_def mentions_table_def table_chunk_def
      table_words Let_def)

text \<open>
  Claim C8, amended. The combined score of every candidate is
  \<open>similarity + 0.2 \<cdot> exact_keyword_overlap_ratio + 0.1 \<cdot> type_bonus + 0.05 \<cdot> length_score\<close>
  where \<open>type_bonus\<close> is 1 when the raw query mentions \<^verbatim>\<open>table\<close> and the type of the chunk
  is \<^verbatim>\<open>visual_context\<close>, and 0 otherwise. The reranked list holds the candidates, each with
  its score, sorted by the score descending.
\<close>

theorem rerank_scores:
  fixes chunks :: "'m result list"
  shows "(\<forall>r \<in> set (rerank q chunks).
            rerankedScore r =
              similarity r + 0.2 * exact_keyword_overlap_ratio q (s_content r)
                + 0.1 * (if mentions_table q (s_type r) then 1 else 0)
                + 0.05 * length_score (s_content r))
         \<and> result.truncate ` set (rerank q chunks) = set chunks
         \<and> length (rerank q chunks) = length chunks
         \<and> sorted_wrt (\<lambda>a b. rerankedScore b \<le> rerankedScore a) (rerank q chunks)"
proof -
  have a: "rerankedScore r =
              similarity r + 0.2 * exact_keyword_overlap_ratio q (s_content r)
                + 0.1 * (if mentions_table q (s_type r) then 1 else 0)
                + 0.05 * length_score (s_content r)" if "r \<in> set (rerank q chunks)" for r
  proof -
    from that obtain c where c: "r = result.extend c (reranked.fields (rerank_score q c))"
      unfolding rerank_set by blast
    have "rerankedScore r = rerank_score q c" "similarity r = similarity c"
      "s_content r = s_content c" "s_type r = s_type c"
      unfolding c by (simp_all add: result.defs reranked.defs source.defs)
    then show ?thesis using rerank_score_formula [of q c]
      by (simp add: rerank_score_def exact_keyword_overlap_ratio_def length_score_def
          mentions_table_def Let_def)
  qed
  have t: "result.truncate (result.extend c (reranked.fields x)) = c" for c :: "'m result" and x
    by (simp add: result.defs reranked.defs source.defs)
  have b: "result.truncate ` set (rerank q chunks) = set chunks"
    unfolding rerank_set by (simp add: image_image t)
  have l: "length (rerank q chunks) = length chunks" by (simp add: rerank_def)
  have "sorted (map (\<lambda>c. - rerankedScore c) (rerank q chunks))"
    unfolding rerank_def by (rule sorted_sort_key)
  then have s: "sorted_wrt (\<lambda>a b. rerankedScore b \<le> rerankedScore a) (rerank q chunks)"
    by (simp add: sorted_map)
  from a b l s show ?thesis by blast
qed


theorem rerank_scores_witness:
  "\<exists>r. rerank ''table'' [table_chunk] = [r]
     \<and> r \<in> set (rerank ''table'' [table_chunk])
     \<and> rerankedScore r =
          similarity r + 0.2 * exact_keyword_overlap_ratio ''table'' (s_content r)
            + 0.1 * (if mentions_table ''table'' (s_type r) then 1 else 0)
            + 0.05 * length_score (s_content r)
     \<and> mentions_table ''table'' (s_type r)
     \<and> rerankedScore r = 3341 / 4000"
proof -
  define r where "r = \<lparr>s_content = ''table'', similarity = 0.5, s_documentId = ''doc'',
                        s_type = ''visual_context'', s_metadata = (), chunkId = 1,
                        rerankedScore = rerank_score ''table'' table_chunk\<rparr>"
  have val: "rerank ''table'' [table_chunk] = [r]"
    by (simp add: rerank_def r_def table_chunk_def)
  then have mem: "r \<in> set (rerank ''table'' [table_chunk])" by simp
  from rerank_scores [of "''table''" "[table_chunk]"] mem
  have f: "rerankedScore r =
          similarity r + 0.2 * exact_keyword_overlap_ratio ''table'' (s_content r)
            + 0.1 * (if mentions_table ''table'' (s_type r) then 1 else 0)
            + 0.05 * length_score (s_content r)"
    by blast
  have m: "mentions_table ''table'' (s_type r)"
    by (simp add: r_def mentions_table_def table_words)
  have "rerankedScore r = 3341 / 4000"
    by (simp add: r_def rerank_score_def table_chunk_def table_words Let_def)
  with val mem f m show ?thesis by blast
qed

section \<open>Properties of the query pipeline\<close>

subsection \<open>A query with no eligible document\<close>

lemma revenue_preprocess:
  "preprocessQuery ''What happened to revenue?'' =
     Inr \<lparr>pq_text = ''What happened to revenue?'', pq_intent = ''general'',
          pq_keywords = [''what'', ''happened'', ''revenue?''],
          processedText = ''What happened to revenue?''\<rparr>"
  by code_simp

lemma revenue_words:
  "split_ws (toLowerCase ''What happened to revenue?'') = [''what'', ''happened'', ''to'', ''revenue?'']"
  "split_ws (toLowerCase []) = [[]]"
  by code_simp+

lemma search_loop_no_eligible:
  assumes "\<forall>(k, v) \<in> set vs. \<exists>l. ids = Some l \<and> v_documentId v \<notin> set l"
  shows "search_loop e ids vs = []"
  using assms by (induction vs) auto

lemma searchWithQuery_no_eligible:
  fixes store :: "('m, 'd) vectorStore"
  assumes "\<forall>(k, v) \<in> set (vectors store). \<exists>l. ids = Some l \<and> v_documentId v \<notin> set l"
  shows "searchWithQuery t ids flt store = Inr []"
  by (simp add: searchWithQuery_def search_def search_loop_no_eligible [OF assms]
      sort_by_similarity_def Let_def split: option.splits)

lemma classify_loop_range:
  "classify_loop xs q \<in> insert ''general'' (set (map fst xs))"
proof (induction xs)
  case Nil
  show ?case by simp
next
  case (Cons p xs)
  then show ?case by (cases p) force
qed

lemma classifyIntent_template: "\<exists>t. templates q (classifyIntent q) = Some t"
proof -
  have "classifyIntent q \<in> {''general'', ''factual'', ''comparison'', ''procedural'',
          ''analytical'', ''numerical'', ''visual''}"
    using classify_loop_range [of intents q] by (simp add: classifyIntent_def intents_def)
  then show ?thesis by (auto simp: templates_def)
qed

lemma expand_loop_ordinary:
  assumes "\<forall>k \<in> set ks. k \<noteq> ''constructor'' \<and> k \<noteq> ''__proto__''"
  shows "\<exists>x. expand_loop acc ks = Inr x"
  using assms by (induction ks arbitrary: acc) (auto simp: synonyms_def split: property.splits)

lemma generate_empty_context_template:
  assumes "templates q i = Some t"
  shows "generate q [] i = \<lparr>a_text = t @ no_information,
                            confidence = calculateResponseConfidence [] q,
                            a_intent = i, contextUsed = False\<rparr>"
  using assms by (simp add: generate_def summarizeContext_def Let_def)

lemma revenue_keywords:
  "extractKeywords ''What happened to revenue?'' = [''what'', ''happened'', ''revenue?'']"
  by code_simp

text \<open>
  Claim C2, as stated, fails: a query against a store with no document raises no
  \<open>EmptySelection\<close> error. \<^verbatim>\<open>query\<close> resolves with an answer, the template of the intent
  followed by the fixed text of \<^verbatim>\<open>summarizeContext\<close> for an empty context, with no
  sources and the relevance score 0.
\<close>

theorem query_zero_documents_counterexample:
  "query ''What happened to revenue?'' None \<lparr>contentType = None, minSimilarity = None\<rparr>
     (constructor_VectorStore :: (unit, unit) vectorStore) =
   Inr \<lparr>r_answer = \<lparr>a_text = ''Based on the available information:'' @ [CHR 0x0A, CHR 0x0A]
                               @ no_information,
                     confidence = 0.5, a_intent = ''general'', contextUsed = False\<rparr>,
        sources = [], relevanceScore = 0, r_context = [], queryIntent = ''general''\<rparr>"
  by (simp add: query_def revenue_preprocess searchWithQuery_def search_def
      constructor_VectorStore_def sort_by_similarity_def query_filters_def rerank_def
      buildContext_def generate_def templates_def summarizeContext_def
      calculateResponseConfidence_def revenue_words calculateRelevanceScore_def Let_def)


text \<open>
  Claim C2, amended. When no stored record is eligible (the store is empty, or the document
  filter selects none of the stored records), \<^verbatim>\<open>query\<close> never raises \<open>EmptySelection\<close>. It
  searches nothing and resolves with the answer that no information was found: the
  template of the query's intent followed by the fixed text of \<^verbatim>\<open>summarizeContext\<close>, with
  no sources, an empty context, the relevance score 0 and \<^verbatim>\<open>contextUsed\<close> false. This is
  stated for the queries of which no keyword is the name of an inherited property
  (\<^verbatim>\<open>constructor\<close>, \<^verbatim>\<open>__proto__\<close>).
\<close>

theorem query_zero_eligible:
  fixes store :: "('m, 'd) vectorStore"
  assumes "\<forall>(k, v) \<in> set (vectors store). \<exists>l. ids = Some l \<and> v_documentId v \<notin> set l"
    and "\<forall>k \<in> set (extractKeywords q). k \<noteq> ''constructor'' \<and> k \<noteq> ''__proto__''"
  shows "query q ids flt store \<noteq> Inl EmptySelection
     \<and> (\<exists>t. templates q (classifyIntent q) = Some t
           \<and> query q ids flt store =
               Inr \<lparr>r_answer = \<lparr>a_text = t @ no_information,
                                 confidence = calculateResponseConfidence [] q,
                                 a_intent = classifyIntent q, contextUsed = False\<rparr>,
                    sources = [], relevanceScore = 0, r_context = [],
                    queryIntent = classifyIntent q\<rparr>)"
proof -
  have sw: "searchWithQuery t ids (query_filters flt) store = Inr []" for t
    by (rule searchWithQuery_no_eligible [OF assms(1)])
  from classifyIntent_template [of q] obtain t where
    t: "templates q (classifyIntent q) = Some t" by blast
  from expand_loop_ordinary [OF assms(2), of q] obtain x where
    x: "expand_loop q (extractKeywords q) = Inr x" by blast
  have p: "preprocessQuery q = Inr \<lparr>pq_text = q, pq_intent = classifyIntent q,
                                    pq_keywords = extractKeywords q, processedText = x\<rparr>"
    by (simp add: preprocessQuery_def expandQuery_def x Let_def)
  have "query q ids flt store =
              Inr \<lparr>r_answer = \<lparr>a_text = t @ no_information,
                                confidence = calculateResponseConfidence [] q,
                                a_intent = classifyIntent q, contextUsed = False\<rparr>,
                   sources = [], relevanceScore = 0, r_context = [],
                   queryIntent = classifyIntent q\<rparr>"
    by (simp add: query_def p sw rerank_def buildContext_def
        generate_empty_context_template [OF t] calculateRelevanceScore_def Let_def)
  with t show ?thesis by simp
qed

theorem query_zero_eligible_witness:
  "vectors one_chunk_store \<noteq> []
   \<and> extractKeywords ''What happened to revenue?'' = [''what'', ''happened'', ''revenue?'']
   \<and> query ''What happened to revenue?'' (Some []) \<lparr>contentType = None, minSimilarity = None\<rparr>
        one_chunk_store \<noteq> Inl EmptySelection
   \<and> templates ''What happened to revenue?'' (classifyIntent ''What happened to revenue?'')
       = Some (''Based on the available information:'' @ [CHR 0x0A, CHR 0x0A])
   \<and> query ''What happened to revenue?'' (Some [])
        \<lparr>contentType = None, minSimilarity = None\<rparr> one_chunk_store =
      Inr \<lparr>r_answer = \<lparr>a_text = (''Based on the available information:'' @ [CHR 0x0A, CHR 0x0A])
                                   @ no_information,
                        confidence = calculateResponseConfidence [] ''What happened to revenue?'',
                        a_intent = classifyIntent ''What happened to revenue?'',
                        contextUsed = False\<rparr>,
           sources = [], relevanceScore = 0, r_context = [],
           queryIntent = classifyIntent ''What happened to revenue?''\<rparr>"
proof -
  have h: "\<forall>(k, v) \<in> set (vectors one_chunk_store).
             \<exists>l. Some [] = Some l \<and> v_documentId v \<notin> set l"
    by (simp add: one_chunk_store_vectors)
  have k: "\<forall>k \<in> set (extractKeywords ''What happened to revenue?'').
             k \<noteq> ''constructor'' \<and> k \<noteq> ''__proto__''"
    by (simp add: revenue_keywords)
  have n: "vectors one_chunk_store \<noteq> []" by (simp add: one_chunk_store_vectors)
  have c: "classifyIntent ''What happened to revenue?'' = ''general''" by code_simp
  have t: "templates ''What happened to revenue?'' (classifyIntent ''What happened to revenue?'')
       = Some (''Based on the available information:'' @ [CHR 0x0A, CHR 0x0A])"
    by (simp add: c templates_def)
  from query_zero_eligible [OF h k, of "\<lparr>contentType = None, minSimilarity = None\<rparr>"] t n
    revenue_keywords
  show ?thesis by auto
qed

subsection \<open>The text that retrieval embeds\<close>

text \<open>The sums that \<^verbatim>\<open>cosineSimilarity\<close> and \<^verbatim>\<open>simulateEmbedding\<close> compute, and the
  embeddings of three texts.\<close>

lemma cosine_loop_sums:
  assumes "length as = length bs"
  shows "cosine_loop as bs (d, ma, mb) =
     (d + (\<Sum>k<length as. as ! k * bs ! k),
      ma + (\<Sum>k<length as. as ! k * as ! k),
      mb + (\<Sum>k<length as. bs ! k * bs ! k))"
  using assms
proof (induction as bs arbitrary: d ma mb rule: list_induct2)
  case Nil
  show ?case by simp
next
  case (Cons a as b bs)
  show ?case by (simp add: Cons.IH sum.lessThan_Suc_shift algebra_simps del: sum.lessThan_Suc)
qed

lemma foldl_squares:
  "foldl (\<lambda>sum val. sum + val * val) (a :: real) xs = a + (\<Sum>k<length xs. xs ! k * xs ! k)"
  by (induction xs arbitrary: a) (simp_all add: sum.lessThan_Suc_shift algebra_simps del: sum.lessThan_Suc)

lemma sum_squares_update:
  fixes xs :: "real list"
  assumes "i < length xs"
  shows "(\<Sum>k<length xs. xs[i := v] ! k * xs[i := v] ! k)
         = (\<Sum>k<length xs. xs ! k * xs ! k) - xs ! i * xs ! i + v * v"
proof -
  have i: "i \<in> {..<length xs}" using assms by simp
  have 1: "(\<Sum>k<length xs. xs ! k * xs ! k)
           = xs ! i * xs ! i + (\<Sum>k\<in>{..<length xs} - {i}. xs ! k * xs ! k)"
    by (rule sum.remove [OF _ i]) simp
  have 2: "(\<Sum>k<length xs. xs[i := v] ! k * xs[i := v] ! k)
           = xs[i := v] ! i * xs[i := v] ! i
             + (\<Sum>k\<in>{..<length xs} - {i}. xs[i := v] ! k * xs[i := v] ! k)"
    by (rule sum.remove [OF _ i]) simp
  have 3: "(\<Sum>k\<in>{..<length xs} - {i}. xs[i := v] ! k * xs[i := v] ! k)
           = (\<Sum>k\<in>{..<length xs} - {i}. xs ! k * xs ! k)"
    by (rule sum.cong) auto
  show ?thesis using assms by (simp add: 1 2 3)
qed

lemma dot_unit:
  fixes a :: "real list"
  assumes "j < n" "length a = n"
  shows "(\<Sum>k<n. a ! k * (replicate n 0)[j := 1] ! k) = a ! j"
proof -
  have "(\<Sum>k<n. a ! k * (replicate n 0)[j := 1] ! k) = (\<Sum>k<n. if k = j then a ! k else 0)"
    by (rule sum.cong) (auto simp: nth_list_update)
  also have "\<dots> = a ! j" using assms(1) by (simp add: sum.delta)
  finally show ?thesis .
qed

lemma word_facts:
  "split_ws (toLowerCase ''show'') = [''show'']"
  "split_ws (toLowerCase ''display'') = [''display'']"
  "split_ws (toLowerCase ''show display present demonstrate'')
     = [''show'', ''display'', ''present'', ''demonstrate'']"
  by code_simp+

lemma index_facts:
  "wordIndex ''show'' = 125" "wordIndex ''display'' = 194"
  "wordIndex ''present'' = 197" "wordIndex ''demonstrate'' = 236"
  by (simp_all add: wordIndex_def embeddingDimensions_def)

lemma embedding_show: "simulateEmbedding ''show'' = (replicate 384 0)[125 := 1]"
proof -
  have e: "embed_loop [''show''] 1 (replicate 384 0) = (replicate 384 0)[125 := 1]"
    by (simp add: index_facts)
  have m: "foldl (\<lambda>sum val. sum + val * val) 0 ((replicate 384 (0::real))[125 := 1]) = 1"
    using sum_squares_update [of 125 "replicate 384 0" 1]
    by (simp add: foldl_squares)
  show ?thesis
    by (simp add: simulateEmbedding_def word_facts embeddingDimensions_def index_facts m Let_def)
qed


lemma embedding_display: "simulateEmbedding ''display'' = (replicate 384 0)[194 := 1]"
proof -
  have m: "foldl (\<lambda>sum val. sum + val * val) 0 ((replicate 384 (0::real))[194 := 1]) = 1"
    using sum_squares_update [of 194 "replicate 384 0" 1]
    by (simp add: foldl_squares)
  show ?thesis
    by (simp add: simulateEmbedding_def word_facts embeddingDimensions_def index_facts m Let_def)
qed

lemma expanded_squares:
  "(\<Sum>k<384. (replicate 384 (0::real))[125 := 1 / 2, 194 := 1 / 2, 197 := 1 / 2, 236 := 1 / 2] ! k
              * (replicate 384 0)[125 := 1 / 2, 194 := 1 / 2, 197 := 1 / 2, 236 := 1 / 2] ! k) = 1"
proof -
  define z :: "real list" where "z = replicate 384 0"
  have lz: "length z = 384" by (simp add: z_def)
  have s0: "(\<Sum>k<384. z ! k * z ! k) = 0" by (simp add: z_def)
  have s1: "(\<Sum>k<384. z[125 := 1 / 2] ! k * z[125 := 1 / 2] ! k) = 1 / 4"
    using sum_squares_update [of 125 z "1 / 2"] s0 by (simp add: lz) (simp add: z_def)
  have s2: "(\<Sum>k<384. z[125 := 1 / 2, 194 := 1 / 2] ! k * z[125 := 1 / 2, 194 := 1 / 2] ! k) = 2 / 4"
    using sum_squares_update [of 194 "z[125 := 1 / 2]" "1 / 2"] s1 by (simp add: lz) (simp add: z_def)
  have s3: "(\<Sum>k<384. z[125 := 1 / 2, 194 := 1 / 2, 197 := 1 / 2] ! k
                       * z[125 := 1 / 2, 194 := 1 / 2, 197 := 1 / 2] ! k) = 3 / 4"
    using sum_squares_update [of 197 "z[125 := 1 / 2, 194 := 1 / 2]" "1 / 2"] s2
    by (simp add: lz) (simp add: z_def)
  have "(\<Sum>k<384. z[125 := 1 / 2, 194 := 1 / 2, 197 := 1 / 2, 236 := 1 / 2] ! k
                       * z[125 := 1 / 2, 194 := 1 / 2, 197 := 1 / 2, 236 := 1 / 2] ! k) = 1"
    using sum_squares_update [of 236 "z[125 := 1 / 2, 194 := 1 / 2, 197 := 1 / 2]" "1 / 2"] s3
    by (simp add: lz) (simp add: z_def)
  then show ?thesis by (simp add: z_def)
qed

lemma embedding_expanded:
  "simulateEmbedding ''show display present demonstrate''
     = (replicate 384 0)[125 := 1 / 2, 194 := 1 / 2, 197 := 1 / 2, 236 := 1 / 2]"
proof -
  have m: "foldl (\<lambda>sum val. sum + val * val) 0
             ((replicate 384 (0::real))[125 := 1 / 2, 194 := 1 / 2, 197 := 1 / 2, 236 := 1 / 2]) = 1"
    using expanded_squares by (simp add: foldl_squares)
  have e: "embed_loop [''show'', ''display'', ''present'', ''demonstrate''] (1 / 2) (replicate 384 0)
             = (replicate 384 0)[125 := 1 / 2, 194 := 1 / 2, 197 := 1 / 2, 236 := 1 / 2]"
    by (simp add: index_facts)
  have w: "1 / sqrt (real (length [''show'', ''display'', ''present'', ''demonstrate''])) = 1 / 2"
  proof -
    have "sqrt 4 = (2 :: real)" using real_sqrt_abs [of 2] by simp
    then show ?thesis by simp
  qed
  show ?thesis
    unfolding simulateEmbedding_def word_facts Let_def w embeddingDimensions_def e m
    by simp
qed

lemma display_store_vectors:
  "vectors display_store =
     [(''doc_1'', \<lparr>v_id = ''doc_1'', v_documentId = ''doc'', v_chunkId = 1,
                   embedding = simulateEmbedding ''display'', v_content = ''display'',
                   v_metadata = (), v_type = ''paragraph''\<rparr>)]"
  by (simp add: display_store_def storeDocument_def constructor_VectorStore_def
      generateEmbeddings_def show_nat_1 Let_def)

lemma cosine_with_unit:
  fixes a :: "real list"
  assumes "length a = n" "j < n" "(\<Sum>k<n. a ! k * a ! k) = 1"
  shows "cosineSimilarity a ((replicate n 0)[j := 1]) = a ! j"
proof -
  have u: "(\<Sum>k<n. (replicate n (0::real))[j := 1] ! k * (replicate n 0)[j := 1] ! k) = 1"
    using dot_unit [of j n "(replicate n 0)[j := 1]"] assms(2) by simp
  have d: "(\<Sum>k<n. a ! k * (replicate n 0)[j := 1] ! k) = a ! j"
    by (rule dot_unit [OF assms(2,1)])
  have "cosine_loop a ((replicate n 0)[j := 1]) (0, 0, 0) = (a ! j, 1, 1)"
    using cosine_loop_sums [of a "(replicate n 0)[j := 1]" 0 0 0] assms(1) u d assms(3)
    by simp
  then show ?thesis using assms(1) by (simp add: cosineSimilarity_def)
qed

lemma similarity_show_display:
  "cosineSimilarity (simulateEmbedding ''show'') (simulateEmbedding ''display'') = 0"
proof -
  have "(\<Sum>k<384. (replicate 384 (0::real))[125 := 1] ! k * (replicate 384 0)[125 := 1] ! k) = 1"
    using dot_unit [of 125 384 "(replicate 384 0)[125 := 1]"] by simp
  then have "cosineSimilarity ((replicate 384 0)[125 := 1]) ((replicate 384 0)[194 := 1])
          = (replicate 384 (0::real))[125 := 1] ! 194"
    by (intro cosine_with_unit) simp_all
  then show ?thesis by (simp add: embedding_show embedding_display)
qed


lemma similarity_expanded_display:
  "cosineSimilarity (simulateEmbedding ''show display present demonstrate'')
     (simulateEmbedding ''display'') = 1 / 2"
proof -
  have "cosineSimilarity
          ((replicate 384 0)[125 := 1 / 2, 194 := 1 / 2, 197 := 1 / 2, 236 := 1 / 2])
          ((replicate 384 0)[194 := 1])
        = (replicate 384 (0::real))[125 := 1 / 2, 194 := 1 / 2, 197 := 1 / 2, 236 := 1 / 2] ! 194"
    by (rule cosine_with_unit [OF _ _ expanded_squares]) simp_all
  then show ?thesis by (simp add: embedding_expanded embedding_display)
qed

lemma show_facts:
  "preprocessQuery ''show'' =
     Inr \<lparr>pq_text = ''show'', pq_intent = ''general'', pq_keywords = [''show''],
          processedText = ''show display present demonstrate''\<rparr>"
  "split_ws (toLowerCase []) = [[]]"
  by code_simp+

text \<open>The sources of a response are the chunks retrieved for the raw query.\<close>

lemma query_sources_raw:
  fixes store :: "('m, 'd) vectorStore"
  assumes "preprocessQuery q = Inr p"
  shows "\<exists>rs. searchWithQuery q ids (query_filters flt) store = Inr rs
          \<and> (\<exists>resp. query q ids flt store = Inr resp
                \<and> sources resp = map source.truncate (take topK (rerank q rs)))"
proof -
  have t: "pq_text p = q"
    using assms by (auto simp: preprocessQuery_def Let_def split: sum.splits)
  from searchWithQuery_eq [of q ids store "query_filters flt"]
  obtain rs where rs: "searchWithQuery q ids (query_filters flt) store = Inr rs"
    by blast
  have "\<exists>resp. query q ids flt store = Inr resp
                \<and> sources resp = map source.truncate (take topK (rerank q rs))"
    by (simp add: query_def assms t rs Let_def source.defs)
  with rs show ?thesis by blast
qed

text \<open>
  Claim C3 does not hold of the code. \<^verbatim>\<open>preprocessQuery\<close> computes the expanded text
  into \<^verbatim>\<open>processedText\<close>, but \<^verbatim>\<open>query\<close> passes \<^verbatim>\<open>processedQuery.text\<close>, the raw query, to
  \<^verbatim>\<open>searchWithQuery\<close>, and nothing reads \<^verbatim>\<open>processedText\<close>. For the query \<^verbatim>\<open>show\<close> the
  expanded text is \<^verbatim>\<open>show display present demonstrate\<close>. Against a store whose one chunk
  is \<^verbatim>\<open>display\<close>, retrieval with the expanded text finds the chunk at similarity 0.5,
  retrieval with the raw text finds nothing, and \<^verbatim>\<open>query\<close> answers that no information
  was found.
\<close>

theorem query_retrieves_with_raw_text:
  "preprocessQuery ''show'' =
     Inr \<lparr>pq_text = ''show'', pq_intent = ''general'', pq_keywords = [''show''],
          processedText = ''show display present demonstrate''\<rparr>
   \<and> searchWithQuery ''show display present demonstrate'' None
        (query_filters \<lparr>contentType = None, minSimilarity = None\<rparr>) display_store
       = Inr [\<lparr>s_content = ''display'', similarity = 1 / 2, s_documentId = ''doc'',
               s_type = ''paragraph'', s_metadata = (), chunkId = 1\<rparr>]
   \<and> searchWithQuery ''show'' None
        (query_filters \<lparr>contentType = None, minSimilarity = None\<rparr>) display_store = Inr []
   \<and> query ''show'' None \<lparr>contentType = None, minSimilarity = None\<rparr> display_store
       = Inr \<lparr>r_answer = \<lparr>a_text = ''Based on the available information:'' @ [CHR 0x0A, CHR 0x0A]
                                     @ no_information,
                           confidence = 0.5, a_intent = ''general'', contextUsed = False\<rparr>,
              sources = [], relevanceScore = 0, r_context = [], queryIntent = ''general''\<rparr>"
proof -
  have a: "searchWithQuery ''show display present demonstrate'' None
        (query_filters \<lparr>contentType = None, minSimilarity = None\<rparr>) display_store
       = Inr [\<lparr>s_content = ''display'', similarity = 1 / 2, s_documentId = ''doc'',
               s_type = ''paragraph'', s_metadata = (), chunkId = 1\<rparr>]"
    by (simp add: searchWithQuery_def search_def display_store_vectors sort_by_similarity_def
        query_filters_def similarity_expanded_display Let_def)
  have b: "searchWithQuery ''show'' None
        (query_filters \<lparr>contentType = None, minSimilarity = None\<rparr>) display_store = Inr []"
    by (simp add: searchWithQuery_def search_def display_store_vectors sort_by_similarity_def
        query_filters_def similarity_show_display Let_def)
  have c: "query ''show'' None \<lparr>contentType = None, minSimilarity = None\<rparr> display_store
       = Inr \<lparr>r_answer = \<lparr>a_text = ''Based on the available information:'' @ [CHR 0x0A, CHR 0x0A]
                                     @ no_information,
                           confidence = 0.5, a_intent = ''general'', contextUsed = False\<rparr>,
              sources = [], relevanceScore = 0, r_context = [], queryIntent = ''general''\<rparr>"
    by (simp add: query_def show_facts b rerank_def buildContext_def generate_def templates_def
        summarizeContext_def calculateResponseConfidence_def word_facts
        calculateRelevanceScore_def Let_def)
  from show_facts(1) a b c show ?thesis by simp
qed


section \<open>Filtering after truncation\<close>

lemma similarity_show_show:
  "cosineSimilarity (simulateEmbedding ''show'') (simulateEmbedding ''show'') = 1"
proof -
  have "(\<Sum>k<384. (replicate 384 (0::real))[125 := 1] ! k * (replicate 384 0)[125 := 1] ! k) = 1"
    using dot_unit [of 125 384 "(replicate 384 0)[125 := 1]"] by simp
  then have "cosineSimilarity ((replicate 384 0)[125 := 1]) ((replicate 384 0)[125 := 1])
          = (replicate 384 (0::real))[125 := 1] ! 125"
    by (intro cosine_with_unit) simp_all
  then show ?thesis by (simp add: embedding_show)
qed

lemma ranked_store_vectors:
  "vectors ranked_store =
     [(''doc_1'', \<lparr>v_id = ''doc_1'', v_documentId = ''doc'', v_chunkId = 1,
                   embedding = simulateEmbedding ''display'', v_content = ''display'',
                   v_metadata = (), v_type = ''visual_context''\<rparr>),
      (''doc_2'', stored_show 2 ''doc_2''), (''doc_3'', stored_show 3 ''doc_3''),
      (''doc_4'', stored_show 4 ''doc_4''), (''doc_5'', stored_show 5 ''doc_5''),
      (''doc_6'', stored_show 6 ''doc_6''), (''doc_7'', stored_show 7 ''doc_7''),
      (''doc_8'', stored_show 8 ''doc_8''), (''doc_9'', stored_show 9 ''doc_9''),
      (''doc_10'', stored_show 10 ''doc_10''), (''doc_11'', stored_show 11 ''doc_11'')]"
  by (simp add: ranked_store_def storeDocument_def constructor_VectorStore_def
      generateEmbeddings_def show_nat_1 show_nat_upto_11 Let_def stored_show_def)

lemma ranked_store_miss:
  "searchWithQuery ''show'' None \<lparr>contentType = Some ''visual_context'', minSimilarity = None\<rparr>
     ranked_store = Inr []"
  by (simp add: searchWithQuery_def search_def ranked_store_vectors sort_by_similarity_def
      Let_def stored_show_def similarity_show_show similarity_show_display)

lemma ranked_store_all:
  "searchWithQuery ''show'' None \<lparr>contentType = None, minSimilarity = None\<rparr> ranked_store
   = Inr (map (\<lambda>i. \<lparr>s_content = ''show'', similarity = 1, s_documentId = ''doc'',
                      s_type = ''paragraph'', s_metadata = (), chunkId = i\<rparr>)
            [2, 3, 4, 5, 6, 7, 8, 9, 10, 11])"
  by (simp add: searchWithQuery_def search_def ranked_store_vectors sort_by_similarity_def
      Let_def stored_show_def similarity_show_show similarity_show_display)

text \<open>
  Claim C9. \<^verbatim>\<open>searchWithQuery\<close> takes the ten most similar eligible records first (the
  first ten of the eligible records sorted by descending similarity to the query) and
  applies the \<^verbatim>\<open>contentType\<close> and \<^verbatim>\<open>minSimilarity\<close> filters to those ten only. So a
  stored record that satisfies the filters is not returned when it is outside the first
  ten: in the store of eleven chunks the query \<^verbatim>\<open>show\<close> for the type
  \<^verbatim>\<open>visual_context\<close> returns nothing, although the index holds a record of that type,
  stored first, because the ten paragraphs are more similar to the query; without a
  filter the same query returns these ten paragraphs.
\<close>

theorem searchWithQuery_truncates_before_filtering:
  fixes store :: "('m, 'd) vectorStore"
  shows "(\<exists>top rest.
     searchWithQuery q ids flt store =
       Inr (map (\<lambda>r. \<lparr>s_content = v_content r, similarity = v_similarity r,
                       s_documentId = v_documentId r, s_type = v_type r,
                       s_metadata = v_metadata r, chunkId = v_chunkId r\<rparr>)
              (filter (\<lambda>r. case minSimilarity flt of
                              None \<Rightarrow> True | Some m \<Rightarrow> m = 0 \<or> m \<le> v_similarity r)
                 (filter (\<lambda>r. case contentType flt of
                                 None \<Rightarrow> True | Some t \<Rightarrow> t = [] \<or> v_type r = t) top)))
     \<and> search (simulateEmbedding q) ids 10 store = Inr top
     \<and> length top = min 10 (length (top @ rest))
     \<and> sorted_wrt (\<lambda>a b. v_similarity b \<le> v_similarity a) (top @ rest)
     \<and> (\<forall>x. count_list (top @ rest) x =
              count_list
                (map (\<lambda>(k, v). \<lparr>v_id = v_id v, v_documentId = v_documentId v,
                                 v_chunkId = v_chunkId v, embedding = embedding v,
                                 v_content = v_content v, v_metadata = v_metadata v,
                                 v_type = v_type v,
                                 v_similarity = cosineSimilarity (simulateEmbedding q) (embedding v)\<rparr>)
                   (filter (\<lambda>(k, v). case ids of None \<Rightarrow> True
                                       | Some l \<Rightarrow> v_documentId v \<in> set l) (vectors store))) x))
   \<and> searchWithQuery ''show'' None \<lparr>contentType = Some ''visual_context'', minSimilarity = None\<rparr>
        ranked_store = Inr []
   \<and> (''doc_1'', \<lparr>v_id = ''doc_1'', v_documentId = ''doc'', v_chunkId = 1,
                   embedding = simulateEmbedding ''display'', v_content = ''display'',
                   v_metadata = (), v_type = ''visual_context''\<rparr>) \<in> set (vectors ranked_store)
   \<and> length (vectors ranked_store) = 11
   \<and> searchWithQuery ''show'' None \<lparr>contentType = None, minSimilarity = None\<rparr> ranked_store
       = Inr (map (\<lambda>i. \<lparr>s_content = ''show'', similarity = 1, s_documentId = ''doc'',
                          s_type = ''paragraph'', s_metadata = (), chunkId = i\<rparr>)
                [2, 3, 4, 5, 6, 7, 8, 9, 10, 11])"
  using searchWithQuery_top [of q ids flt store] ranked_store_miss ranked_store_all
  by (simp add: ranked_store_vectors)

section \<open>Properties of the chunker\<close>

lemma split_from_no_sep:
  "a \<notin> set xs \<Longrightarrow> split_from a b cur xs = [cur @ xs]"
proof (induction xs arbitrary: cur)
  case Nil
  then show ?case by simp
next
  case (Cons x xs)
  then show ?case by (cases xs) auto
qed

lemma split_from_sep:
  "a \<notin> set xs \<Longrightarrow>
   split_from a b cur (xs @ a # b # rest) = (cur @ xs) # split_from a b [] rest"
proof (induction xs arbitrary: cur)
  case Nil
  then show ?case by simp
next
  case (Cons x xs)
  then show ?case by (cases xs) auto
qed

lemma trim_id:
  assumes "xs \<noteq> []" "\<not> is_ws (hd xs)" "\<not> is_ws (last xs)"
  shows "trim xs = xs"
proof -
  have 1: "dropWhile is_ws xs = xs" using assms(1,2) by (cases xs) auto
  have "rev xs \<noteq> []" "\<not> is_ws (hd (rev xs))" using assms(1,3) by (simp_all add: hd_rev)
  then have 2: "dropWhile is_ws (rev xs) = rev xs" by (cases "rev xs") auto
  show ?thesis by (simp add: trim_def 1 2)
qed

lemma long_paragraph_length: "length long_paragraph = 502"
  by (simp add: long_paragraph_def)

lemma is_ws_a_b: "\<not> is_ws CHR ''a''" "\<not> is_ws CHR ''b''"
  by code_simp+

lemma long_paragraph_trim: "trim long_paragraph = long_paragraph"
proof (rule trim_id)
  show "long_paragraph \<noteq> []" by (simp add: long_paragraph_def)
  have "hd long_paragraph = CHR ''a''"
    by (simp add: long_paragraph_def hd_append)
  then show "\<not> is_ws (hd long_paragraph)" by (simp add: is_ws_a_b)
  have "last long_paragraph = CHR ''b''"
    by (simp add: long_paragraph_def)
  then show "\<not> is_ws (last long_paragraph)" by (simp add: is_ws_a_b)
qed

lemma long_paragraph_trim_unfolded:
  "trim (replicate 250 CHR ''a'' @ CHR ''.'' # CHR '' '' # replicate 250 CHR ''b'') = long_paragraph"
  using long_paragraph_trim by (simp add: long_paragraph_def)

lemma long_paragraph_paragraphs:
  "split2 (CHR 0x0A) (CHR 0x0A) long_paragraph = [long_paragraph]"
proof -
  have "CHR 0x0A \<notin> set long_paragraph" by (simp add: long_paragraph_def)
  then show ?thesis by (simp add: split2_def split_from_no_sep)
qed

lemma long_paragraph_sentences:
  "split2 CHR ''.'' CHR '' '' long_paragraph = [replicate 250 CHR ''a'', replicate 250 CHR ''b'']"
proof -
  have a: "CHR ''.'' \<notin> set (replicate 250 CHR ''a'')" by simp
  have b: "CHR ''.'' \<notin> set (replicate 250 CHR ''b'')" by simp
  have "split_from CHR ''.'' CHR '' '' [] (replicate 250 CHR ''a'' @ CHR ''.'' # CHR '' '' # replicate 250 CHR ''b'')
        = ([] @ replicate 250 CHR ''a'') # split_from CHR ''.'' CHR '' '' [] (replicate 250 CHR ''b'')"
    by (rule split_from_sep [OF a])
  also have "split_from CHR ''.'' CHR '' '' [] (replicate 250 CHR ''b'') = [[] @ replicate 250 CHR ''b'']"
    by (rule split_from_no_sep [OF b])
  finally show ?thesis by (simp add: split2_def long_paragraph_def)
qed

text \<open>
  Claim C4 does not hold of the code. The loop over the sentences tests
  \<^verbatim>\<open>(currentChunk + sentence).length > 500\<close>, without the separator \<^verbatim>\<open>'. '\<close> that it puts
  between the two when it appends. For the paragraph of two sentences of 250 characters
  the test is \<open>500 > 500\<close>, the sentences are joined, and the one chunk that
  \<^verbatim>\<open>createChunks\<close> produces has 502 characters and holds two sentences.
\<close>

theorem createChunks_pdf_exceeds_500:
  "createChunks long_paragraph ''pdf'' \<lparr>aux_tables = None, aux_charts = None\<rparr>
     = [\<lparr>c_id = 1, c_content = long_paragraph, c_type = ''paragraph'',
         c_metadata = \<lparr>sourceType = ''pdf'', chunkType = ''paragraph'',
                       visualElements = None :: unit list option, charts = None\<rparr>\<rparr>]
   \<and> length long_paragraph = 502
   \<and> split2 CHR ''.'' CHR '' '' long_paragraph = [replicate 250 CHR ''a'', replicate 250 CHR ''b'']"
proof -
  have ne: "long_paragraph \<noteq> []" by (simp add: long_paragraph_def)
  have "createChunks long_paragraph ''pdf'' \<lparr>aux_tables = None, aux_charts = None\<rparr>
     = [\<lparr>c_id = 1, c_content = long_paragraph, c_type = ''paragraph'',
         c_metadata = \<lparr>sourceType = ''pdf'', chunkType = ''paragraph'',
                       visualElements = None :: unit list option, charts = None\<rparr>\<rparr>]"
    by (simp add: createChunks_def long_paragraph_paragraphs long_paragraph_trim
        long_paragraph_length long_paragraph_sentences long_paragraph_trim_unfolded
        paragraph_chunk_def ne)
  then show ?thesis
    using long_paragraph_length long_paragraph_sentences by simp
qed


end
